theory Spec2Isabelle
  imports Complex_Main "HOL-Library.AList"
begin

chapter \<open>Oracular: a shallow embedding of the oracle control plane\<close>

text \<open>
  The development follows five modules of the repository:
  \<^item> \<^verbatim>\<open>backend/services/oracle_service.py\<close> (DataValidator, DataAggregator, the update cycle),
  \<^item> \<^verbatim>\<open>backend/scheduler/task_scheduler.py\<close> (retry policies, \<^verbatim>\<open>_execute_task\<close>),
  \<^item> \<^verbatim>\<open>backend/blockchain/eth_service.py\<close> (nonce cache, stuck-transaction monitor),
  \<^item> \<^verbatim>\<open>backend/adapters/data_source_adapter.py\<close> (cache, \<^verbatim>\<open>fetch_data\<close>),
  \<^item> \<^verbatim>\<open>backend/validation/validation_service.py\<close> (the five validation stages).

  Conventions. Python floats are modelled as real numbers (rounding is outside the model;
  where the source can leave the finite floats the model says so at that place).
  Time stamps and clock readings are real numbers of seconds. A raised exception is a
  value \<open>Inl e\<close> of a sum type; mutation is explicit state passing. Calls into libraries
  and remote systems (the chain, the HTTP server, Python's \<^verbatim>\<open>eval\<close>, signature
  verification) are parameters of the functions that make them.
\<close>

section \<open>Python values and exceptions\<close>

datatype py_error =
    ValueError string
  | ZeroDivisionError string
  | AttributeError string
  | TypeError string
  | NameError string
  | KeyError string
  | TransactionNotFound string
  | PyException string

text \<open>\<^verbatim>\<open>str(e)\<close>: the message an exception was raised with.\<close>

fun str_of_error :: "py_error \<Rightarrow> string" where
  "str_of_error (ValueError m) = m"
| "str_of_error (ZeroDivisionError m) = m"
| "str_of_error (AttributeError m) = m"
| "str_of_error (TypeError m) = m"
| "str_of_error (NameError m) = m"
| "str_of_error (KeyError m) = m"
| "str_of_error (TransactionNotFound m) = m"
| "str_of_error (PyException m) = m"

text \<open>
  A value of a data dictionary as the sources deliver it: \<^verbatim>\<open>None\<close>, a boolean, a
  number (Python \<^verbatim>\<open>int\<close> and \<^verbatim>\<open>float\<close> alike) or text. \<open>PStr\<close> stands for
  text that \<^verbatim>\<open>float()\<close> does not parse as a number.
\<close>

datatype pyval = PNone | PBool bool | PNum real | PStr string

type_synonym pydict = "string \<rightharpoonup> pyval"

text \<open>\<^verbatim>\<open>float(x)\<close>.\<close>

fun py_float :: "pyval \<Rightarrow> py_error + real" where
  "py_float (PNum r) = Inr r"
| "py_float (PBool b) = Inr (if b then 1 else 0)"
| "py_float (PStr s) = Inl (ValueError (''could not convert string to float: '' @ s))"
| "py_float PNone = Inl (TypeError ''float() argument must be a string or a real number'')"

text \<open>\<^verbatim>\<open>isinstance(x, (int, float))\<close>; a Python \<^verbatim>\<open>bool\<close> is an \<^verbatim>\<open>int\<close>.\<close>

fun is_number :: "pyval \<Rightarrow> bool" where
  "is_number (PNum r) = True"
| "is_number (PBool b) = True"
| "is_number _ = False"

fun number_of :: "pyval \<Rightarrow> real" where
  "number_of (PNum r) = r"
| "number_of (PBool b) = (if b then 1 else 0)"
| "number_of _ = 0"

section \<open>The \<^verbatim>\<open>statistics\<close> and \<^verbatim>\<open>numpy\<close> functions the code calls\<close>

text \<open>\<^verbatim>\<open>statistics.mean\<close>, \<^verbatim>\<open>statistics.variance\<close> (sample variance, divisor \<open>n - 1\<close>)
  and \<^verbatim>\<open>statistics.stdev\<close>. Every call site guards the length the functions need.\<close>

definition py_mean :: "real list \<Rightarrow> real" where
  "py_mean xs = sum_list xs / real (length xs)"

definition py_variance :: "real list \<Rightarrow> real" where
  "py_variance xs =
     (let m = py_mean xs in sum_list (map (\<lambda>x. (x - m)\<^sup>2) xs) / real (length xs - 1))"

definition py_stdev :: "real list \<Rightarrow> real" where
  "py_stdev xs = sqrt (py_variance xs)"

section \<open>oracle\_service.py: DataAggregator\<close>

record aggregated =
  agg_value :: real
  confidence :: real
  num_sources :: nat

text \<open>\<^verbatim>\<open>d.get("value", 0.0)\<close>.\<close>

definition point_value :: "pydict \<Rightarrow> pyval" where
  "point_value d = (case d ''value'' of None \<Rightarrow> PNum 0 | Some v \<Rightarrow> v)"

text \<open>\<^verbatim>\<open>[float(d.get("value", 0.0)) for d in data_points]\<close>: the first conversion that
  raises ends the comprehension.\<close>

fun float_values :: "pydict list \<Rightarrow> py_error + real list" where
  "float_values [] = Inr []"
| "float_values (d # ds) =
     (case py_float (point_value d) of
        Inl e \<Rightarrow> Inl e
      | Inr x \<Rightarrow> (case float_values ds of Inl e \<Rightarrow> Inl e | Inr xs \<Rightarrow> Inr (x # xs)))"

text \<open>\<^verbatim>\<open>DataAggregator._remove_outliers\<close>. The z-score \<^verbatim>\<open>(v - mean) / stdev\<close> is a
  division of Python floats: with \<^verbatim>\<open>stdev == 0.0\<close> the first pair of the comprehension
  raises \<^verbatim>\<open>ZeroDivisionError\<close>.\<close>

definition remove_outliers ::
  "real \<Rightarrow> real list \<Rightarrow> real list \<Rightarrow> py_error + (real list \<times> real list)" where
  "remove_outliers outlier_threshold values weights =
     (if length values < 2 then Inr (values, weights)
      else
        let mean = py_mean values;
            stdev = py_stdev values
        in if zip values weights \<noteq> [] \<and> stdev = 0
           then Inl (ZeroDivisionError ''float division by zero'')
           else
             let clean_data =
                   filter (\<lambda>(v, w). \<bar>(v - mean) / stdev\<bar> < outlier_threshold)
                     (zip values weights)
             in if clean_data = [] then Inr ([], [])
                else Inr (map fst clean_data, map snd clean_data))"

text \<open>\<^verbatim>\<open>DataAggregator._calculate_confidence\<close>.\<close>

definition calculate_confidence :: "real list \<Rightarrow> real list \<Rightarrow> py_error + real" where
  "calculate_confidence values weights =
     (if values = [] then Inr 0
      else
        let variance = (if length values > 1 then py_variance values else 0)
        in if weights = [] then Inl (ZeroDivisionError ''division by zero'')
           else
             let avg_weight = sum_list weights / real (length weights);
                 c = (1 / (1 + variance)) * avg_weight * min 1 (real (length values) / 5)
             in Inr (min 1 c))"

text \<open>\<^verbatim>\<open>DataAggregator.aggregate\<close>. The result dictionary is built in order: the
  weighted mean first (a zero weight sum raises), the confidence second.\<close>

definition aggregate :: "real \<Rightarrow> pydict list \<Rightarrow> real list \<Rightarrow> py_error + aggregated" where
  "aggregate outlier_threshold data_points weights =
     (if data_points = [] \<or> weights = [] \<or> length data_points \<noteq> length weights
      then Inl (ValueError ''Invalid data points or weights'')
      else
        case float_values data_points of
          Inl e \<Rightarrow> Inl e
        | Inr values \<Rightarrow>
            (case remove_outliers outlier_threshold values weights of
               Inl e \<Rightarrow> Inl e
             | Inr (clean_values, clean_weights) \<Rightarrow>
                 if clean_values = []
                 then Inl (ValueError ''No valid data points after outlier removal'')
                 else
                   let weighted_sum = sum_list (map (\<lambda>(v, w). v * w) (zip clean_values clean_weights));
                       weight_sum = sum_list clean_weights
                   in if weight_sum = 0 then Inl (ZeroDivisionError ''float division by zero'')
                      else
                        (case calculate_confidence clean_values clean_weights of
                           Inl e \<Rightarrow> Inl e
                         | Inr c \<Rightarrow>
                             Inr \<lparr>agg_value = weighted_sum / weight_sum,
                                  confidence = c,
                                  num_sources = length clean_values\<rparr>)))"

text \<open>The default \<^verbatim>\<open>DataAggregator()\<close>: \<^verbatim>\<open>outlier_threshold = 2.0\<close>.\<close>

definition default_outlier_threshold :: real where
  "default_outlier_threshold = 2"

text \<open>The data points of the spec's first end-to-end scenario: three sources report
  100.0, 100.5 and 99.5; the weights are \<open>[1, 1, 1]\<close>.\<close>

definition numeric_point :: "real \<Rightarrow> pydict" where
  "numeric_point x = [''value'' \<mapsto> PNum x]"

definition happy_path_points :: "pydict list" where
  "happy_path_points = [numeric_point 100, numeric_point (201 / 2), numeric_point (199 / 2)]"

section \<open>oracle\_service.py: DataValidator\<close>

text \<open>The rules of one data type: \<^verbatim>\<open>{"type": ..., "min": ..., "max": ...,
  "allowed_values": [...]}\<close>. An absent key is \<open>None\<close> (the empty list for
  \<^verbatim>\<open>allowed_values\<close>).\<close>

record validation_rule =
  rule_type :: "string option"
  rule_min :: "real option"
  rule_max :: "real option"
  allowed_values :: "pyval list"

type_synonym validation_rules = "string \<rightharpoonup> validation_rule"

text \<open>Python's \<^verbatim>\<open>==\<close> on these values: \<^verbatim>\<open>True == 1\<close> and \<^verbatim>\<open>False == 0\<close>.\<close>

fun py_eq :: "pyval \<Rightarrow> pyval \<Rightarrow> bool" where
  "py_eq (PBool b) (PNum r) = ((if b then 1 else 0) = r)"
| "py_eq (PNum r) (PBool b) = (r = (if b then 1 else 0))"
| "py_eq x y = (x = y)"

text \<open>\<^verbatim>\<open>x in xs\<close> for a list.\<close>

definition py_in :: "pyval \<Rightarrow> pyval list \<Rightarrow> bool" where
  "py_in x xs = list_ex (py_eq x) xs"

text \<open>\<^verbatim>\<open>data.get("value")\<close>.\<close>

definition get_value :: "pydict \<Rightarrow> pyval" where
  "get_value d = (case d ''value'' of None \<Rightarrow> PNone | Some v \<Rightarrow> v)"

text \<open>\<^verbatim>\<open>DataValidator._validate_numeric\<close>; an absent bound is infinite.\<close>

definition validate_numeric :: "pydict \<Rightarrow> validation_rule \<Rightarrow> bool" where
  "validate_numeric d rules =
     (let v = get_value d
      in if \<not> is_number v then False
         else (case rule_min rules of None \<Rightarrow> True | Some lo \<Rightarrow> lo \<le> number_of v)
            \<and> (case rule_max rules of None \<Rightarrow> True | Some hi \<Rightarrow> number_of v \<le> hi))"

text \<open>\<^verbatim>\<open>DataValidator._validate_categorical\<close> and \<^verbatim>\<open>_validate_binary\<close>.\<close>

definition validate_categorical :: "pydict \<Rightarrow> validation_rule \<Rightarrow> bool" where
  "validate_categorical d rules = py_in (get_value d) (allowed_values rules)"

definition validate_binary :: "pydict \<Rightarrow> validation_rule \<Rightarrow> bool" where
  "validate_binary d rules = (case get_value d of PBool b \<Rightarrow> True | _ \<Rightarrow> False)"

text \<open>\<^verbatim>\<open>DataValidator.validate\<close>. The data type is whatever the data carries under
  \<^verbatim>\<open>"type"\<close>; the rule table is keyed by text, so any other key is absent.\<close>

definition validate :: "validation_rules \<Rightarrow> pydict \<Rightarrow> pyval \<Rightarrow> bool" where
  "validate rules d data_type =
     (case data_type of
        PStr t \<Rightarrow>
          (case rules t of
             None \<Rightarrow> False
           | Some r \<Rightarrow>
               if rule_type r = Some ''numeric'' then validate_numeric d r
               else if rule_type r = Some ''categorical'' then validate_categorical d r
               else if rule_type r = Some ''binary'' then validate_binary d r
               else False)
      | _ \<Rightarrow> False)"

section \<open>oracle\_service.py: the update cycle of OracleService\<close>

text \<open>
  What one data source does during one update cycle: the outcome of
  \<^verbatim>\<open>circuit_breaker.execute(source.fetch_data)\<close> (an exception, also the breaker's own
  "Circuit breaker is open", or the fetched dictionary), and the result of
  \<^verbatim>\<open>get_reputation_score()\<close>, \<open>None\<close> when the object has no such method (the
  adapters of \<^verbatim>\<open>data_source_adapter.py\<close> define none).
\<close>

record source_run =
  fetch_outcome :: "py_error + pydict"
  reputation :: "real option"

text \<open>\<^verbatim>\<open>OracleService._fetch_all_sources\<close>: \<^verbatim>\<open>gather(..., return_exceptions=True)\<close>,
  then the results that are exceptions are dropped.\<close>

definition fetch_all_sources :: "source_run list \<Rightarrow> (source_run \<times> pydict) list" where
  "fetch_all_sources sources =
     concat (map (\<lambda>s. case fetch_outcome s of Inl e \<Rightarrow> [] | Inr d \<Rightarrow> [(s, d)]) sources)"

text \<open>\<^verbatim>\<open>data["data"].get("type", "numeric")\<close>.\<close>

definition data_type_of :: "pydict \<Rightarrow> pyval" where
  "data_type_of d = (case d ''type'' of None \<Rightarrow> PStr ''numeric'' | Some t \<Rightarrow> t)"

text \<open>\<^verbatim>\<open>OracleService._validate_data\<close>.\<close>

definition validate_data ::
  "validation_rules \<Rightarrow> (source_run \<times> pydict) list \<Rightarrow> (source_run \<times> pydict) list" where
  "validate_data rules raw_data = filter (\<lambda>(s, d). validate rules d (data_type_of d)) raw_data"

text \<open>\<^verbatim>\<open>[d["source"].get_reputation_score() for d in valid_data]\<close>.\<close>

fun reputation_scores :: "source_run list \<Rightarrow> py_error + real list" where
  "reputation_scores [] = Inr []"
| "reputation_scores (s # ss) =
     (case reputation s of
        None \<Rightarrow> Inl (AttributeError ''object has no attribute 'get_reputation_score' '')
      | Some w \<Rightarrow> (case reputation_scores ss of Inl e \<Rightarrow> Inl e | Inr ws \<Rightarrow> Inr (w # ws)))"

text \<open>
  \<^verbatim>\<open>OracleService._update_cycle\<close>. The result is \<open>Inr None\<close> when the cycle returns
  early ("No valid data points in update cycle") and \<open>Inr (Some a)\<close> when it aggregated
  \<open>a\<close>, signed it and handed it to \<^verbatim>\<open>_submit_to_chain\<close>, whose body in
  \<^verbatim>\<open>OracleService\<close> is \<^verbatim>\<open>pass\<close>. Signing is taken not to raise. The method itself
  returns nothing to its caller in both cases.
\<close>

definition update_cycle :: "validation_rules \<Rightarrow> source_run list \<Rightarrow> py_error + aggregated option" where
  "update_cycle rules sources =
     (let raw_data = fetch_all_sources sources;
          valid_data = validate_data rules raw_data
      in if valid_data = [] then Inr None
         else
           (case reputation_scores (map fst valid_data) of
              Inl e \<Rightarrow> Inl e
            | Inr weights \<Rightarrow>
                (case aggregate default_outlier_threshold (map snd valid_data) weights of
                   Inl e \<Rightarrow> Inl e
                 | Inr a \<Rightarrow> Inr (Some a))))"

section \<open>data\_source\_adapter.py: AdapterConfig\<close>

text \<open>The normalization rules of an adapter: \<^verbatim>\<open>{"type", "scale", "decimals",
  "mapping"}\<close>; the mapping is a list of pairs, looked up with Python's \<^verbatim>\<open>==\<close>.\<close>

record normalization_rule =
  norm_type :: "string option"
  scale :: "real option"
  decimals :: "int option"
  mapping :: "(pyval \<times> pyval) list"

text \<open>\<^verbatim>\<open>AdapterConfig\<close>. The authentication settings are kept as the configured
  \<^verbatim>\<open>type\<close> only, the rate limit as \<open>(calls, period)\<close>, and the retry configuration as its
  \<^verbatim>\<open>max_attempts\<close> after the defaults are merged in (3 when not configured).\<close>

record AdapterConfig =
  source_id :: string
  source_type :: string
  endpoint :: string
  auth_config :: "string option"
  rate_limit :: "(nat \<times> real) option"
  cache_ttl :: real
  timeout :: real
  retry_max_attempts :: int
  validation_rules :: "validation_rule option"
  normalization_rules :: "normalization_rule option"

section \<open>task\_scheduler.py\<close>

datatype TaskPriority = CRITICAL | HIGH | MEDIUM | LOW

datatype TaskStatus = PENDING | RUNNING | COMPLETED | FAILED | RETRYING | CANCELLED

datatype FailureReason =
    NETWORK_ERROR
  | DATA_SOURCE_ERROR
  | VALIDATION_ERROR
  | BLOCKCHAIN_ERROR
  | RESOURCE_ERROR
  | UNKNOWN_ERROR

record RetryPolicy =
  max_attempts :: int
  backoff_base :: real
  backoff_multiplier :: real
  max_delay :: real
  failure_types :: "FailureReason set"

record MaintenanceWindow =
  window_id :: nat
  window_start :: real
  window_end :: real
  affected_tasks :: "nat set"

text \<open>\<^verbatim>\<open>TaskDefinition\<close>; identifiers (UUIDs) are natural numbers. The trigger, the
  name, the owner and the creation times play no part in an execution and are left out.\<close>

record TaskDefinition =
  task_id :: nat
  priority :: TaskPriority
  data_sources :: "AdapterConfig list"
  task_validation_rules :: validation_rules
  min_sources :: int
  max_concurrent :: int
  task_timeout :: int
  retry_policy :: RetryPolicy
  contracts :: "nat list"

record TaskExecution =
  execution_id :: nat
  exec_task_id :: nat
  start_time :: real
  end_time :: "real option"
  status :: TaskStatus
  node_id :: string
  exec_data_points :: "pydict list"
  aggregated_value :: "aggregated option"
  error :: "string option"
  retry_count :: int
  duration :: "real option"

text \<open>A retry job handed to the job scheduler by \<^verbatim>\<open>_schedule_retry\<close>: the task, the
  run date and the counter that ends the job id.\<close>

record retry_job =
  job_task :: nat
  run_date :: real
  job_retry :: int

text \<open>The scheduler's in-memory state. \<^verbatim>\<open>_executions\<close> is a dictionary, kept as an
  association list in insertion order.\<close>

record scheduler =
  tasks :: "nat \<rightharpoonup> TaskDefinition"
  executions :: "(nat \<times> TaskExecution) list"
  maintenance_windows :: "MaintenanceWindow list"
  running_tasks :: "nat set"
  jobs :: "retry_job list"
  scheduler_node :: string

text \<open>\<^verbatim>\<open>self._retry_policies\<close>, as \<^verbatim>\<open>__init__\<close> fills it.\<close>

fun retry_policies :: "TaskPriority \<Rightarrow> RetryPolicy" where
  "retry_policies CRITICAL =
     \<lparr>max_attempts = 5, backoff_base = 1, backoff_multiplier = 2, max_delay = 300,
      failure_types = UNIV\<rparr>"
| "retry_policies HIGH =
     \<lparr>max_attempts = 3, backoff_base = 2, backoff_multiplier = 2, max_delay = 600,
      failure_types = {NETWORK_ERROR, DATA_SOURCE_ERROR, BLOCKCHAIN_ERROR}\<rparr>"
| "retry_policies MEDIUM =
     \<lparr>max_attempts = 2, backoff_base = 5, backoff_multiplier = 2, max_delay = 1800,
      failure_types = {NETWORK_ERROR, DATA_SOURCE_ERROR}\<rparr>"
| "retry_policies LOW =
     \<lparr>max_attempts = 1, backoff_base = 10, backoff_multiplier = 2, max_delay = 3600,
      failure_types = {NETWORK_ERROR}\<rparr>"

text \<open>\<^verbatim>\<open>TaskScheduler.create_task\<close>, the task definition it builds (defaults:
  priority MEDIUM, \<^verbatim>\<open>min_sources = 1\<close>, \<^verbatim>\<open>max_concurrent = 1\<close>, \<^verbatim>\<open>timeout = 300\<close>).\<close>

definition create_task ::
  "nat \<Rightarrow> AdapterConfig list \<Rightarrow> validation_rules \<Rightarrow> nat list \<Rightarrow> TaskPriority \<Rightarrow> int \<Rightarrow> int \<Rightarrow> int
     \<Rightarrow> TaskDefinition" where
  "create_task new_id sources rules contract_ids prio min_src max_conc tmo =
     \<lparr>task_id = new_id, priority = prio, data_sources = sources,
      task_validation_rules = rules, min_sources = min_src, max_concurrent = max_conc,
      task_timeout = tmo, retry_policy = retry_policies prio, contracts = contract_ids\<rparr>"

text \<open>\<^verbatim>\<open>str.lower\<close> on ASCII text, and \<^verbatim>\<open>sub in text\<close>.\<close>

definition lower_char :: "char \<Rightarrow> char" where
  "lower_char c =
     (case map_of (zip ''ABCDEFGHIJKLMNOPQRSTUVWXYZ'' ''abcdefghijklmnopqrstuvwxyz'') c of
        None \<Rightarrow> c
      | Some l \<Rightarrow> l)"

definition py_lower :: "string \<Rightarrow> string" where
  "py_lower s = map lower_char s"

fun starts_with :: "string \<Rightarrow> string \<Rightarrow> bool" where
  "starts_with [] s = True"
| "starts_with (a # as) [] = False"
| "starts_with (a # as) (b # bs) = (a = b \<and> starts_with as bs)"

fun contains :: "string \<Rightarrow> string \<Rightarrow> bool" where
  "contains sub [] = (sub = [])"
| "contains sub (c # cs) = (starts_with sub (c # cs) \<or> contains sub cs)"

text \<open>\<^verbatim>\<open>TaskScheduler._classify_failure\<close>.\<close>

definition classify_failure :: "string \<Rightarrow> FailureReason" where
  "classify_failure err =
     (let error_lower = py_lower err
      in if contains ''network'' error_lower \<or> contains ''connection'' error_lower
         then NETWORK_ERROR
         else if contains ''data source'' error_lower then DATA_SOURCE_ERROR
         else if contains ''validation'' error_lower then VALIDATION_ERROR
         else if contains ''blockchain'' error_lower \<or> contains ''web3'' error_lower
         then BLOCKCHAIN_ERROR
         else if contains ''resource'' error_lower \<or> contains ''memory'' error_lower
         then RESOURCE_ERROR
         else UNKNOWN_ERROR)"

text \<open>\<^verbatim>\<open>TaskScheduler._should_retry\<close>.\<close>

definition should_retry :: "TaskDefinition \<Rightarrow> TaskExecution \<Rightarrow> FailureReason \<Rightarrow> bool" where
  "should_retry task execution failure_reason =
     (if retry_count execution \<ge> max_attempts (retry_policy task) then False
      else if failure_reason \<notin> failure_types (retry_policy task) then False
      else True)"

text \<open>\<^verbatim>\<open>TaskScheduler._schedule_retry\<close>: the execution record after the call and the
  job it adds. The exponent \<^verbatim>\<open>retry_count - 1\<close> is taken after the increment; the retry
  counts that reach this function are not negative.\<close>

definition schedule_retry ::
  "TaskDefinition \<Rightarrow> TaskExecution \<Rightarrow> real \<Rightarrow> TaskExecution \<times> retry_job" where
  "schedule_retry task execution now =
     (let n = retry_count execution + 1;
          delay = min (backoff_base (retry_policy task)
                        * backoff_multiplier (retry_policy task) ^ nat (n - 1))
                      (max_delay (retry_policy task))
      in (execution\<lparr>retry_count := n, status := RETRYING\<rparr>,
          \<lparr>job_task = task_id task, run_date = now + delay, job_retry = n\<rparr>))"

text \<open>\<^verbatim>\<open>TaskScheduler._is_in_maintenance\<close>.\<close>

definition is_in_maintenance :: "scheduler \<Rightarrow> real \<Rightarrow> nat \<Rightarrow> bool" where
  "is_in_maintenance sch now tid =
     list_ex (\<lambda>w. window_start w \<le> now \<and> now \<le> window_end w
                  \<and> (affected_tasks w = {} \<or> tid \<in> affected_tasks w))
       (maintenance_windows sch)"

text \<open>\<^verbatim>\<open>[self.adapter_factory.create_adapter(config, self.monitor) for config in
  task.data_sources]\<close>. The factory is the scheduler's collaborator: for each configuration
  it raises or returns the source, described by what that source does in this run.\<close>

fun create_sources ::
  "(AdapterConfig \<Rightarrow> py_error + source_run) \<Rightarrow> AdapterConfig list \<Rightarrow> py_error + source_run list" where
  "create_sources create_adapter [] = Inr []"
| "create_sources create_adapter (c # cs) =
     (case create_adapter c of
        Inl e \<Rightarrow> Inl e
      | Inr s \<Rightarrow>
          (case create_sources create_adapter cs of Inl e \<Rightarrow> Inl e | Inr ss \<Rightarrow> Inr (s # ss)))"

text \<open>The body of the \<^verbatim>\<open>try\<close> block of \<^verbatim>\<open>_execute_task\<close>: create the sources, build
  an \<^verbatim>\<open>OracleService\<close> over the task's validation rules, run one update cycle, walk the
  contracts (the loop body is \<^verbatim>\<open>pass\<close>). The value of the update cycle is kept here for
  the statements below; the source discards it.\<close>

definition execute_body ::
  "(AdapterConfig \<Rightarrow> py_error + source_run) \<Rightarrow> TaskDefinition \<Rightarrow> py_error + aggregated option" where
  "execute_body create_adapter task =
     (case create_sources create_adapter (data_sources task) of
        Inl e \<Rightarrow> Inl e
      | Inr sources \<Rightarrow> update_cycle (task_validation_rules task) sources)"

text \<open>The execution record \<^verbatim>\<open>_execute_task\<close> creates.\<close>

definition new_execution :: "nat \<Rightarrow> nat \<Rightarrow> real \<Rightarrow> string \<Rightarrow> TaskExecution" where
  "new_execution new_id tid now node =
     \<lparr>execution_id = new_id, exec_task_id = tid, start_time = now, end_time = None,
      status = PENDING, node_id = node, exec_data_points = [], aggregated_value = None,
      error = None, retry_count = 0, duration = None\<rparr>"

text \<open>
  \<^verbatim>\<open>TaskScheduler._execute_task\<close>, one whole run: \<open>now\<close> is the clock, \<open>new_id\<close> the
  fresh execution id, \<open>elapsed\<close> the measured duration of the update cycle. The function
  returns the scheduler's in-memory state after the \<^verbatim>\<open>finally\<close> block; writing the
  record to the store and the metrics are outside the model.
\<close>

definition execute_task ::
  "(AdapterConfig \<Rightarrow> py_error + source_run) \<Rightarrow> real \<Rightarrow> real \<Rightarrow> nat \<Rightarrow> scheduler \<Rightarrow> nat \<Rightarrow> scheduler" where
  "execute_task create_adapter now elapsed new_id sch tid =
     (case tasks sch tid of
        None \<Rightarrow> sch
      | Some task \<Rightarrow>
          if is_in_maintenance sch now tid then sch
          else if int (length (filter (\<lambda>e. exec_task_id e = tid \<and> status e = RUNNING)
                                (map snd (executions sch)))) \<ge> max_concurrent task
          then sch
          else
            let execution = new_execution new_id tid now (scheduler_node sch)
            in (case execute_body create_adapter task of
                  Inr a \<Rightarrow>
                    sch\<lparr>executions :=
                          AList.update new_id
                            (execution\<lparr>status := COMPLETED, end_time := Some now,
                                       duration := Some elapsed\<rparr>)
                            (executions sch),
                        running_tasks := running_tasks sch - {tid}\<rparr>
                | Inl e \<Rightarrow>
                    let failed = execution\<lparr>status := FAILED,
                                           error := Some (str_of_error e),
                                           end_time := Some now\<rparr>;
                        failure_reason = classify_failure (str_of_error e)
                    in if should_retry task failed failure_reason
                       then
                         (case schedule_retry task failed now of
                            (retrying, job) \<Rightarrow>
                              sch\<lparr>executions := AList.update new_id retrying (executions sch),
                                  jobs := jobs sch @ [job],
                                  running_tasks := running_tasks sch - {tid}\<rparr>)
                       else
                         sch\<lparr>executions := AList.update new_id failed (executions sch),
                             running_tasks := running_tasks sch - {tid}\<rparr>))"

text \<open>The status of an execution in the scheduler's table.\<close>

definition execution_status :: "scheduler \<Rightarrow> nat \<Rightarrow> TaskStatus option" where
  "execution_status sch eid = map_option status (map_of (executions sch) eid)"


text \<open>\<^verbatim>\<open>AdapterConfig(source_id, source_type, endpoint)\<close> with the dataclass defaults
  (\<^verbatim>\<open>cache_ttl = 60\<close>, \<^verbatim>\<open>timeout = 30\<close>, three attempts).\<close>

definition default_adapter_config :: "string \<Rightarrow> string \<Rightarrow> string \<Rightarrow> AdapterConfig" where
  "default_adapter_config sid stype ep =
     \<lparr>source_id = sid, source_type = stype, endpoint = ep, auth_config = None,
      rate_limit = None, cache_ttl = 60, timeout = 30, retry_max_attempts = 3,
      validation_rules = None, normalization_rules = None\<rparr>"

text \<open>A scheduler as \<^verbatim>\<open>__init__\<close> leaves it, with one task registered.\<close>

definition scheduler_with :: "TaskDefinition \<Rightarrow> scheduler" where
  "scheduler_with task =
     \<lparr>tasks = [task_id task \<mapsto> task], executions = [], maintenance_windows = [],
      running_tasks = {}, jobs = [], scheduler_node = ''node-1''\<rparr>"

text \<open>Rules that accept every number under the data type \<^verbatim>\<open>"numeric"\<close>.\<close>

definition numeric_rules :: validation_rules where
  "numeric_rules =
     [''numeric'' \<mapsto> \<lparr>rule_type = Some ''numeric'', rule_min = None, rule_max = None,
                       allowed_values = []\<rparr>]"


definition failing_factory :: "string \<Rightarrow> AdapterConfig \<Rightarrow> py_error + source_run" where
  "failing_factory msg c = Inl (ValueError msg)"

section \<open>eth\_service.py\<close>

datatype TransactionStatus = Tx_PENDING | Tx_CONFIRMED | Tx_FAILED | Tx_STUCK

text \<open>The part of \<^verbatim>\<open>NetworkConfig\<close> the transaction code reads.\<close>

record NetworkConfig =
  chain_id :: int
  max_gas_price :: int

text \<open>A transaction body as \<^verbatim>\<open>w3.eth.get_transaction\<close> returns it (addresses, hashes
  and call data are text) and a receipt as \<^verbatim>\<open>get_transaction_receipt\<close> returns it.\<close>

record chain_tx =
  tx_from :: string
  tx_to :: string
  tx_value :: int
  tx_input :: string
  tx_nonce :: int
  tx_gasPrice :: int
  tx_blockNumber :: "int option"

record receipt =
  receipt_status :: int

text \<open>The dictionary \<^verbatim>\<open>_get_tx_params\<close> returns, and the replacement transaction
  \<^verbatim>\<open>_handle_stuck_transaction\<close> builds.\<close>

record tx_params =
  tp_from :: string
  tp_nonce :: int
  tp_gasPrice :: int
  tp_chainId :: int

record replacement_tx =
  r_from :: string
  r_to :: string
  r_value :: int
  r_data :: string
  r_nonce :: int
  r_gasPrice :: int

text \<open>
  The node behind \<^verbatim>\<open>self.w3\<close> at the moment of a call, and the outcome of
  \<^verbatim>\<open>self.send_transaction\<close>: that method hands the transaction to
  \<^verbatim>\<open>_send_transaction_impl\<close>, which the repository's files do not define, so what a
  submission returns or raises is a parameter here. The chain reads are taken to return
  their value.
\<close>

record chain =
  block_number :: "py_error + int"
  pending_transaction_count :: "string \<Rightarrow> int"
  base_fee :: int
  suggested_price :: int
  get_transaction_receipt :: "string \<Rightarrow> py_error + receipt option"
  get_transaction :: "string \<Rightarrow> py_error + chain_tx option"
  send_transaction :: "replacement_tx \<Rightarrow> py_error + string"

text \<open>
  The state of an \<^verbatim>\<open>EthereumService\<close>. \<^verbatim>\<open>_pending_transactions\<close> is a dictionary,
  kept as an association list in insertion order. \<open>sent\<close> is not a field of the source: it
  lists the transactions passed to \<^verbatim>\<open>send_transaction\<close>, in order, so that a statement
  can say whether a submission was made.
\<close>

record eth_service =
  config :: NetworkConfig
  account :: "string option"
  nonce_cache :: "string \<rightharpoonup> (int \<times> real)"
  pending_transactions :: "(string \<times> TransactionStatus) list"
  gas_price_cache :: "int option"
  last_gas_update :: real
  max_nonce_cache_age :: real
  gas_price_update_interval :: real
  sent :: "replacement_tx list"

text \<open>\<^verbatim>\<open>EthereumService.__init__\<close> (defaults: cache age 300 s, gas interval 60 s).\<close>

definition new_eth_service :: "NetworkConfig \<Rightarrow> string option \<Rightarrow> eth_service" where
  "new_eth_service cfg acct =
     \<lparr>config = cfg, account = acct, nonce_cache = Map.empty, pending_transactions = [],
      gas_price_cache = None, last_gas_update = 0, max_nonce_cache_age = 300,
      gas_price_update_interval = 60, sent = []\<rparr>"

text \<open>\<^verbatim>\<open>EthereumService._get_next_nonce\<close>: the nonce returned and the state after.\<close>

definition get_next_nonce :: "chain \<Rightarrow> real \<Rightarrow> string \<Rightarrow> eth_service \<Rightarrow> int \<times> eth_service" where
  "get_next_nonce ch current_time address s =
     (case nonce_cache s address of
        Some (cached_nonce, cache_time) \<Rightarrow>
          if current_time - cache_time < max_nonce_cache_age s then (cached_nonce, s)
          else
            let nonce = pending_transaction_count ch address
            in (nonce, s\<lparr>nonce_cache := (nonce_cache s)(address \<mapsto> (nonce + 1, current_time))\<rparr>)
      | None \<Rightarrow>
          let nonce = pending_transaction_count ch address
          in (nonce, s\<lparr>nonce_cache := (nonce_cache s)(address \<mapsto> (nonce + 1, current_time))\<rparr>))"

text \<open>\<^verbatim>\<open>EthereumService._get_optimal_gas_price\<close>.\<close>

definition get_optimal_gas_price :: "chain \<Rightarrow> real \<Rightarrow> eth_service \<Rightarrow> int \<times> eth_service" where
  "get_optimal_gas_price ch current_time s =
     (case gas_price_cache s of
        Some cached \<Rightarrow>
          if current_time - last_gas_update s > gas_price_update_interval s
          then
            let optimal_price = min (max (base_fee ch * 2) (suggested_price ch))
                                    (max_gas_price (config s))
            in (optimal_price,
                s\<lparr>gas_price_cache := Some optimal_price, last_gas_update := current_time\<rparr>)
          else (cached, s)
      | None \<Rightarrow>
          let optimal_price = min (max (base_fee ch * 2) (suggested_price ch))
                                  (max_gas_price (config s))
          in (optimal_price,
              s\<lparr>gas_price_cache := Some optimal_price, last_gas_update := current_time\<rparr>))"

text \<open>\<^verbatim>\<open>EthereumService._get_tx_params\<close>, under the nonce lock. Without an account
  (\<^verbatim>\<open>self.account is None\<close>) reading \<^verbatim>\<open>self.account.address\<close> raises.\<close>

definition get_tx_params :: "chain \<Rightarrow> real \<Rightarrow> eth_service \<Rightarrow> (py_error + tx_params) \<times> eth_service" where
  "get_tx_params ch current_time s =
     (case account s of
        None \<Rightarrow> (Inl (AttributeError '''NoneType' object has no attribute 'address' ''), s)
      | Some address \<Rightarrow>
          (case get_next_nonce ch current_time address s of
             (nonce, s1) \<Rightarrow>
               (case get_optimal_gas_price ch current_time s1 of
                  (gas_price, s2) \<Rightarrow>
                    (Inr \<lparr>tp_from = address, tp_nonce = nonce, tp_gasPrice = gas_price,
                          tp_chainId = chain_id (config s)\<rparr>, s2))))"








text \<open>A node for concrete runs: the current block is \<open>cur\<close>, the address has \<open>count\<close>
  pending transactions, no hash has a receipt, every hash has the body \<open>tx\<close>, and a
  submission returns the hash \<open>h\<close>.\<close>

definition simple_chain :: "int \<Rightarrow> int \<Rightarrow> chain_tx \<Rightarrow> string \<Rightarrow> chain" where
  "simple_chain cur count tx h =
     \<lparr>block_number = Inr cur, pending_transaction_count = (\<lambda>a. count), base_fee = 10,
      suggested_price = 15, get_transaction_receipt = (\<lambda>x. Inr None),
      get_transaction = (\<lambda>x. Inr (Some tx)), send_transaction = (\<lambda>r. Inr h)\<rparr>"

text \<open>A transaction body with gas price \<open>g\<close>, mined-block field \<open>b\<close> and nonce 3.\<close>

definition sample_tx :: "int \<Rightarrow> int option \<Rightarrow> chain_tx" where
  "sample_tx g b =
     \<lparr>tx_from = ''0xA'', tx_to = ''0xB'', tx_value = 0, tx_input = ''0x'', tx_nonce = 3,
      tx_gasPrice = g, tx_blockNumber = b\<rparr>"


section \<open>validation\_service.py\<close>

datatype ValidationStage = SOURCE | CROSS_SOURCE | TEMPORAL | CONSENSUS | CRYPTOGRAPHIC | FORMAL

text \<open>\<^verbatim>\<open>ValidationSeverity\<close>; the constructors carry a prefix because the task priorities
  use the same four words.\<close>

datatype ValidationSeverity = Sev_CRITICAL | Sev_HIGH | Sev_MEDIUM | Sev_LOW

datatype AnomalyType =
    STATISTICAL_OUTLIER
  | RAPID_CHANGE
  | VOLUME_MISMATCH
  | CONSENSUS_DEVIATION
  | PATTERN_BREAK
  | MANIPULATION_SUSPECT

text \<open>A value in the evaluation context of a rule condition: a data value, or
  \<^verbatim>\<open>float("inf")\<close>.\<close>

datatype ctxval = CVal pyval | CInf

record ValidationRule =
  rule_id :: nat
  rule_name :: string
  description :: string
  stage :: ValidationStage
  severity :: ValidationSeverity
  source_types :: "string set"
  condition :: string
  parameters :: "string \<rightharpoonup> ctxval"
  enabled :: bool

text \<open>\<^verbatim>\<open>ValidationFinding\<close>. The finding id (a fresh UUID) and the details dictionary are
  left out; \<open>f_rule_id\<close> is the rule's id for a finding of a rule and \<open>None\<close> where the
  source draws a fresh UUID.\<close>

record ValidationFinding =
  f_rule_id :: "nat option"
  f_source_id :: string
  f_stage :: ValidationStage
  f_severity :: ValidationSeverity
  f_anomaly_type :: "AnomalyType option"
  f_message :: string
  f_timestamp :: real

record SourceStats =
  stats_mean :: real
  std_dev :: real
  min_value :: real
  max_value :: real
  last_update :: real
  update_frequency :: real
  confidence_score :: real

text \<open>
  The state of a \<^verbatim>\<open>ValidationService\<close>: its configuration and its five stores.
  \<^verbatim>\<open>_rules\<close> and \<^verbatim>\<open>_source_stats\<close> are dictionaries, kept in insertion order;
  \<open>findings_store\<close> is \<^verbatim>\<open>self._findings\<close>; a registered public key is a number.
\<close>

record validation_service =
  history_window :: real
  min_history_points :: int
  confidence_threshold :: real
  max_source_deviation :: real
  rapid_change_threshold :: real
  min_consensus_sources :: int
  rules :: "ValidationRule list"
  findings_store :: "ValidationFinding list"
  source_stats :: "(string \<times> SourceStats) list"
  historical_data :: "string \<rightharpoonup> (real \<times> real) list"
  source_signatures :: "string \<rightharpoonup> nat"

text \<open>\<^verbatim>\<open>_initialize_default_rules\<close>: the five default rules, with the ids 1 to 5.\<close>

definition default_rules :: "ValidationRule list" where
  "default_rules =
     [\<lparr>rule_id = 1, rule_name = ''basic_range_check'',
       description = ''Validate value within allowed range'',
       stage = SOURCE, severity = Sev_CRITICAL, source_types = {''all''},
       condition = ''min_value <= value <= max_value'',
       parameters = [''min_value'' \<mapsto> CVal (PNum 0), ''max_value'' \<mapsto> CInf], enabled = True\<rparr>,
      \<lparr>rule_id = 2, rule_name = ''statistical_outlier'',
       description = ''Detect statistical outliers'',
       stage = SOURCE, severity = Sev_HIGH, source_types = {''price'', ''rate''},
       condition = ''abs(zscore) <= threshold'',
       parameters = [''threshold'' \<mapsto> CVal (PNum 3)], enabled = True\<rparr>,
      \<lparr>rule_id = 3, rule_name = ''rapid_change'',
       description = ''Detect suspicious rapid changes'',
       stage = TEMPORAL, severity = Sev_HIGH, source_types = {''price'', ''rate''},
       condition = ''abs(pct_change) <= threshold'',
       parameters = [''threshold'' \<mapsto> CVal (PNum (5 / 100)), ''min_interval'' \<mapsto> CVal (PNum 60)],
       enabled = True\<rparr>,
      \<lparr>rule_id = 4, rule_name = ''volume_weighted'',
       description = ''Volume-weighted price validation'',
       stage = CROSS_SOURCE, severity = Sev_MEDIUM, source_types = {''price''},
       condition = ''abs(vwap_deviation) <= threshold'',
       parameters = [''threshold'' \<mapsto> CVal (PNum (2 / 100))], enabled = True\<rparr>,
      \<lparr>rule_id = 5, rule_name = ''consensus_check'',
       description = ''Multi-source consensus validation'',
       stage = CONSENSUS, severity = Sev_HIGH, source_types = {''all''},
       condition = ''consensus_deviation <= threshold'',
       parameters = [''threshold'' \<mapsto> CVal (PNum (1 / 10)), ''min_sources'' \<mapsto> CVal (PNum 3)],
       enabled = True\<rparr>]"

text \<open>\<^verbatim>\<open>ValidationService()\<close> with the default arguments.\<close>

definition new_validation_service :: validation_service where
  "new_validation_service =
     \<lparr>history_window = 3600, min_history_points = 10, confidence_threshold = 4 / 5,
      max_source_deviation = 1 / 10, rapid_change_threshold = 5 / 100,
      min_consensus_sources = 3, rules = default_rules, findings_store = [],
      source_stats = [], historical_data = Map.empty, source_signatures = Map.empty\<rparr>"

text \<open>The numpy and scipy functions of the module, on non-empty lists of finite numbers:
  \<^verbatim>\<open>np.mean\<close>, \<^verbatim>\<open>np.std\<close> (population standard deviation), \<^verbatim>\<open>np.diff\<close>,
  \<^verbatim>\<open>np.median\<close> and \<^verbatim>\<open>scipy.stats.median_abs_deviation\<close>.\<close>

definition np_mean :: "real list \<Rightarrow> real" where
  "np_mean xs = sum_list xs / real (length xs)"

definition np_std :: "real list \<Rightarrow> real" where
  "np_std xs = sqrt (sum_list (map (\<lambda>x. (x - np_mean xs)\<^sup>2) xs) / real (length xs))"

definition np_diff :: "real list \<Rightarrow> real list" where
  "np_diff xs = map (\<lambda>(a, b). b - a) (zip xs (tl xs))"

definition np_median :: "real list \<Rightarrow> real" where
  "np_median xs =
     (let s = sort xs; n = length xs
      in if odd n then s ! (n div 2) else (s ! (n div 2 - 1) + s ! (n div 2)) / 2)"

definition median_abs_deviation :: "real list \<Rightarrow> real" where
  "median_abs_deviation xs = np_median (map (\<lambda>x. \<bar>x - np_median xs\<bar>) xs)"

text \<open>The context a rule condition is evaluated in:
  \<^verbatim>\<open>{"value": value, "timestamp": timestamp, **metadata, **rule.parameters}\<close>.\<close>

definition rule_context :: "real \<Rightarrow> real \<Rightarrow> pydict \<Rightarrow> ValidationRule \<Rightarrow> (string \<rightharpoonup> ctxval)" where
  "rule_context v ts metadata rule =
     (\<lambda>k. case parameters rule k of
             Some p \<Rightarrow> Some p
           | None \<Rightarrow>
               (case metadata k of
                  Some m \<Rightarrow> Some (CVal m)
                | None \<Rightarrow>
                    if k = ''value'' then Some (CVal (PNum v))
                    else if k = ''timestamp'' then Some (CVal (PNum ts))
                    else None))"

text \<open>The finding the SOURCE stage emits for a rule whose condition is false.\<close>

definition source_finding :: "ValidationRule \<Rightarrow> string \<Rightarrow> real \<Rightarrow> ValidationFinding" where
  "source_finding rule sid now =
     \<lparr>f_rule_id = Some (rule_id rule), f_source_id = sid, f_stage = SOURCE,
      f_severity = severity rule, f_anomaly_type = Some STATISTICAL_OUTLIER,
      f_message = ''Source validation failed: '' @ description rule, f_timestamp = now\<rparr>"

text \<open>
  The loop of \<^verbatim>\<open>_validate_source\<close> over the applicable rules. \<open>py_eval\<close> stands for
  \<^verbatim>\<open>eval(rule.condition, {"__builtins__": {}}, context)\<close> and the truth value of its
  result; an exception of the evaluation is caught, and the point is then invalid without
  a finding.
\<close>

fun source_rules_loop ::
  "(string \<Rightarrow> (string \<rightharpoonup> ctxval) \<Rightarrow> py_error + bool) \<Rightarrow> string \<Rightarrow> real \<Rightarrow> real \<Rightarrow> pydict
     \<Rightarrow> real \<Rightarrow> ValidationRule list \<Rightarrow> bool \<times> ValidationFinding list
     \<Rightarrow> bool \<times> ValidationFinding list" where
  "source_rules_loop py_eval sid v ts metadata now [] acc = acc"
| "source_rules_loop py_eval sid v ts metadata now (rule # rest) (is_valid, findings) =
     (case py_eval (condition rule) (rule_context v ts metadata rule) of
        Inl e \<Rightarrow> source_rules_loop py_eval sid v ts metadata now rest (False, findings)
      | Inr True \<Rightarrow> source_rules_loop py_eval sid v ts metadata now rest (is_valid, findings)
      | Inr False \<Rightarrow>
          source_rules_loop py_eval sid v ts metadata now rest
            (if severity rule = Sev_CRITICAL \<or> severity rule = Sev_HIGH then False else is_valid,
             findings @ [source_finding rule sid now]))"

text \<open>\<^verbatim>\<open>ValidationService._validate_source\<close>: the verdict and the findings list after
  the stage.\<close>

definition validate_source ::
  "(string \<Rightarrow> (string \<rightharpoonup> ctxval) \<Rightarrow> py_error + bool) \<Rightarrow> validation_service \<Rightarrow> string \<Rightarrow> string
     \<Rightarrow> real \<Rightarrow> real \<Rightarrow> pydict \<Rightarrow> real \<Rightarrow> ValidationFinding list
     \<Rightarrow> bool \<times> ValidationFinding list" where
  "validate_source py_eval s sid stype v ts metadata now findings =
     source_rules_loop py_eval sid v ts metadata now
       (filter (\<lambda>rule. stage rule = SOURCE
                       \<and> (source_types rule = {''all''} \<or> stype \<in> source_types rule))
          (rules s))
       (True, findings)"

text \<open>\<^verbatim>\<open>ValidationService._validate_cross_source\<close>.\<close>

definition validate_cross_source ::
  "validation_service \<Rightarrow> string \<Rightarrow> real \<Rightarrow> real \<Rightarrow> ValidationFinding list
     \<Rightarrow> bool \<times> ValidationFinding list" where
  "validate_cross_source s sid v now findings =
     (if length (source_stats s) < 2 then (True, findings)
      else
        let all_values = map (\<lambda>(k, st). stats_mean st)
                           (filter (\<lambda>(k, st). k \<noteq> sid) (source_stats s)) @ [v];
            mean = np_mean all_values;
            std = np_std all_values
        in if std > 0 \<and> \<bar>(v - mean) / std\<bar> > 3
           then (False,
                 findings @
                   [\<lparr>f_rule_id = None, f_source_id = sid, f_stage = CROSS_SOURCE,
                     f_severity = Sev_HIGH, f_anomaly_type = Some CONSENSUS_DEVIATION,
                     f_message = ''Significant deviation from other sources'',
                     f_timestamp = now\<rparr>])
           else (True, findings))"

text \<open>
  The rapid-change check of \<^verbatim>\<open>_validate_temporal\<close>: the previous point is
  \<^verbatim>\<open>history[-2]\<close>, the last one being the point under validation. The change rate
  divides Python floats, so a previous value of zero raises.
\<close>

definition rapid_change_check ::
  "validation_service \<Rightarrow> string \<Rightarrow> real \<Rightarrow> real \<Rightarrow> real \<Rightarrow> (real \<times> real) list
     \<Rightarrow> py_error + ValidationFinding list" where
  "rapid_change_check s sid v ts now history =
     (if length history \<ge> 2
      then
        let last_value = snd (history ! (length history - 2));
            time_diff = ts - fst (history ! (length history - 2))
        in if time_diff > 0
           then
             if last_value * time_diff = 0
             then Inl (ZeroDivisionError ''float division by zero'')
             else
               if \<bar>v - last_value\<bar> / (last_value * time_diff) > rapid_change_threshold s
               then Inr [\<lparr>f_rule_id = None, f_source_id = sid, f_stage = TEMPORAL,
                          f_severity = Sev_HIGH, f_anomaly_type = Some RAPID_CHANGE,
                          f_message = ''Suspicious rapid value change'', f_timestamp = now\<rparr>]
               else Inr []
           else Inr []
      else Inr [])"

text \<open>
  The comparison \<^verbatim>\<open>abs(current_return) > 3 * volatility\<close> of the pattern check, for a
  non-empty list \<open>values\<close> whose last element is not zero, where
  \<^verbatim>\<open>volatility = np.std(np.diff(np.log(values)))\<close> and
  \<^verbatim>\<open>current_return = np.log(value / values[-1])\<close>. numpy does not raise outside the
  domain of the logarithm; it computes with \<open>-inf\<close> and \<open>nan\<close>: a stored value that is not
  positive makes the volatility \<open>nan\<close> and the comparison false; with positive stored values,
  a negative \<open>value\<close> makes the return \<open>nan\<close> (false), and \<open>value = 0\<close> makes it \<open>-inf\<close>,
  whose absolute value exceeds every finite bound (true).
\<close>

definition pattern_break_detected :: "real list \<Rightarrow> real \<Rightarrow> bool" where
  "pattern_break_detected values v =
     (if \<not> list_all (\<lambda>x. 0 < x) values then False
      else if v < 0 then False
      else if v = 0 then True
      else \<bar>ln (v / last values)\<bar> > 3 * np_std (np_diff (map ln values)))"

text \<open>The pattern check of \<^verbatim>\<open>_validate_temporal\<close>; \<^verbatim>\<open>value / values[-1]\<close> divides
  Python floats and raises on a zero.\<close>

definition pattern_break_check ::
  "string \<Rightarrow> real \<Rightarrow> real \<Rightarrow> (real \<times> real) list \<Rightarrow> py_error + ValidationFinding list" where
  "pattern_break_check sid v now history =
     (let values = map snd history
      in if length values \<ge> 30
         then
           if last values = 0 then Inl (ZeroDivisionError ''float division by zero'')
           else
             if pattern_break_detected values v
             then Inr [\<lparr>f_rule_id = None, f_source_id = sid, f_stage = TEMPORAL,
                        f_severity = Sev_MEDIUM, f_anomaly_type = Some PATTERN_BREAK,
                        f_message = ''Break in historical pattern detected'',
                        f_timestamp = now\<rparr>]
             else Inr []
         else Inr [])"

text \<open>\<^verbatim>\<open>ValidationService._validate_temporal\<close>: only a rapid change makes the point
  invalid; a pattern break is a Medium finding.\<close>

definition validate_temporal ::
  "validation_service \<Rightarrow> string \<Rightarrow> real \<Rightarrow> real \<Rightarrow> real \<Rightarrow> ValidationFinding list
     \<Rightarrow> py_error + (bool \<times> ValidationFinding list)" where
  "validate_temporal s sid v ts now findings =
     (case historical_data s sid of
        None \<Rightarrow> Inr (True, findings)
      | Some history \<Rightarrow>
          if int (length history) < min_history_points s then Inr (True, findings)
          else
            (case rapid_change_check s sid v ts now history of
               Inl e \<Rightarrow> Inl e
             | Inr rapid \<Rightarrow>
                 (case pattern_break_check sid v now history of
                    Inl e \<Rightarrow> Inl e
                  | Inr pattern \<Rightarrow> Inr (rapid = [], findings @ rapid @ pattern))))"

text \<open>\<^verbatim>\<open>ValidationService._validate_consensus\<close>. With no source statistics at all the
  median is \<open>nan\<close> and the test \<^verbatim>\<open>mad > 0\<close> is false.\<close>

definition validate_consensus ::
  "validation_service \<Rightarrow> string \<Rightarrow> real \<Rightarrow> real \<Rightarrow> ValidationFinding list
     \<Rightarrow> bool \<times> ValidationFinding list" where
  "validate_consensus s sid v now findings =
     (if int (length (source_stats s)) < min_consensus_sources s then (True, findings)
      else
        let all_values = map (\<lambda>(k, st). stats_mean st) (source_stats s)
        in if all_values = [] then (True, findings)
           else
             let median = np_median all_values;
                 mad = median_abs_deviation all_values
             in if mad > 0 \<and> \<bar>v - median\<bar> / mad > 3
                then (False,
                      findings @
                        [\<lparr>f_rule_id = None, f_source_id = sid, f_stage = CONSENSUS,
                          f_severity = Sev_HIGH, f_anomaly_type = Some CONSENSUS_DEVIATION,
                          f_message = ''Significant deviation from consensus'',
                          f_timestamp = now\<rparr>])
                else (True, findings))"

text \<open>What \<^verbatim>\<open>public_key.verify\<close> does with a signature: it returns, raises
  \<^verbatim>\<open>InvalidSignature\<close>, or raises something else.\<close>

datatype verify_outcome = Verified | InvalidSignature | VerifyError

text \<open>\<^verbatim>\<open>ValidationService._validate_cryptographic\<close>; \<open>verify\<close> takes the registered key,
  the signature and the fields of the message \<^verbatim>\<open>"{source_id}:{value}:{ts}"\<close>.\<close>

definition validate_cryptographic ::
  "(nat \<Rightarrow> string \<Rightarrow> string \<Rightarrow> real \<Rightarrow> real \<Rightarrow> verify_outcome) \<Rightarrow> validation_service \<Rightarrow> string
     \<Rightarrow> real \<Rightarrow> real \<Rightarrow> string \<Rightarrow> real \<Rightarrow> ValidationFinding list
     \<Rightarrow> bool \<times> ValidationFinding list" where
  "validate_cryptographic verify s sid v ts signature now findings =
     (case source_signatures s sid of
        None \<Rightarrow> (True, findings)
      | Some key \<Rightarrow>
          (case verify key signature sid v ts of
             Verified \<Rightarrow> (True, findings)
           | InvalidSignature \<Rightarrow>
               (False,
                findings @
                  [\<lparr>f_rule_id = None, f_source_id = sid, f_stage = CRYPTOGRAPHIC,
                    f_severity = Sev_CRITICAL, f_anomaly_type = None,
                    f_message = ''Invalid cryptographic signature'', f_timestamp = now\<rparr>])
           | VerifyError \<Rightarrow> (False, findings)))"

text \<open>\<^verbatim>\<open>min(values)\<close> and \<^verbatim>\<open>max(values)\<close> of a non-empty list.\<close>

definition py_min :: "real list \<Rightarrow> real" where
  "py_min xs = fold min (tl xs) (hd xs)"

definition py_max :: "real list \<Rightarrow> real" where
  "py_max xs = fold max (tl xs) (hd xs)"

text \<open>\<^verbatim>\<open>ValidationService._update_source_stats\<close>. The guard on the number of points does
  not exclude an empty history when \<^verbatim>\<open>min_history_points\<close> is not positive;
  \<^verbatim>\<open>min(values)\<close> then raises.\<close>

definition update_source_stats ::
  "validation_service \<Rightarrow> string \<Rightarrow> real \<Rightarrow> real \<Rightarrow> py_error + validation_service" where
  "update_source_stats s sid v ts =
     (case historical_data s sid of
        None \<Rightarrow> Inr s
      | Some history \<Rightarrow>
          let values = map snd history
          in if int (length values) \<ge> min_history_points s
             then
               if values = [] then Inl (ValueError ''min() arg is an empty sequence'')
               else
                 let mean = np_mean values;
                     sd = np_std values;
                     intervals = np_diff (map fst history);
                     freq = (if length intervals > 0 then np_mean intervals else 0);
                     recency = 1;
                     consistency = 1 - (if mean \<noteq> 0 then sd / mean else 0);
                     update_regularity = 1 - (if freq > 0 then np_std intervals / freq else 0)
                 in Inr (s\<lparr>source_stats :=
                            AList.update sid
                              \<lparr>stats_mean = mean, std_dev = sd, min_value = py_min values,
                               max_value = py_max values, last_update = ts,
                               update_frequency = freq,
                               confidence_score = (recency + consistency + update_regularity) / 3\<rparr>
                              (source_stats s)\<rparr>)
             else Inr s)"

text \<open>The first statements of \<^verbatim>\<open>validate_data_point\<close>: append the point to the source's
  series (created empty when the source is new), then keep the entries newer than
  \<^verbatim>\<open>utcnow() - history_window\<close>.\<close>

definition series_of :: "validation_service \<Rightarrow> string \<Rightarrow> (real \<times> real) list" where
  "series_of s sid = (case historical_data s sid of None \<Rightarrow> [] | Some h \<Rightarrow> h)"

definition record_point :: "validation_service \<Rightarrow> string \<Rightarrow> real \<Rightarrow> real \<Rightarrow> real \<Rightarrow> validation_service" where
  "record_point s sid v ts now =
     (let series = series_of s sid @ [(ts, v)];
          cutoff_time = now - history_window s
      in s\<lparr>historical_data :=
             (historical_data s)(sid \<mapsto> filter (\<lambda>(t, x). t > cutoff_time) series)\<rparr>)"

text \<open>
  \<^verbatim>\<open>ValidationService.validate_data_point\<close>: the state after the call, and either the
  exception that left the call or the pair \<open>(is_valid, findings)\<close> it returned. \<open>now\<close> is
  the clock (one reading for the whole call); \<open>signature\<close> is \<open>None\<close> or the bytes.
\<close>

definition validate_data_point ::
  "(string \<Rightarrow> (string \<rightharpoonup> ctxval) \<Rightarrow> py_error + bool)
     \<Rightarrow> (nat \<Rightarrow> string \<Rightarrow> string \<Rightarrow> real \<Rightarrow> real \<Rightarrow> verify_outcome)
     \<Rightarrow> validation_service \<Rightarrow> string \<Rightarrow> string \<Rightarrow> real \<Rightarrow> real \<Rightarrow> pydict \<Rightarrow> string option \<Rightarrow> real
     \<Rightarrow> validation_service \<times> (py_error + (bool \<times> ValidationFinding list))" where
  "validate_data_point py_eval verify s sid stype v ts metadata signature now =
     (let s1 = record_point s sid v ts now
      in case validate_source py_eval s1 sid stype v ts metadata now [] of
           (False, f1) \<Rightarrow> (s1, Inr (False, f1))
         | (True, f1) \<Rightarrow>
             (case validate_cross_source s1 sid v now f1 of
                (False, f2) \<Rightarrow> (s1, Inr (False, f2))
              | (True, f2) \<Rightarrow>
                  (case validate_temporal s1 sid v ts now f2 of
                     Inl e \<Rightarrow> (s1, Inl e)
                   | Inr (False, f3) \<Rightarrow> (s1, Inr (False, f3))
                   | Inr (True, f3) \<Rightarrow>
                       (case validate_consensus s1 sid v now f3 of
                          (False, f4) \<Rightarrow> (s1, Inr (False, f4))
                        | (True, f4) \<Rightarrow>
                            (case (case signature of
                                     None \<Rightarrow> (True, f4)
                                   | Some sg \<Rightarrow>
                                       if sg = [] then (True, f4)
                                       else validate_cryptographic verify s1 sid v ts sg now f4) of
                               (False, f5) \<Rightarrow> (s1, Inr (False, f5))
                             | (True, f5) \<Rightarrow>
                                 (case update_source_stats s1 sid v ts of
                                    Inl e \<Rightarrow> (s1, Inl e)
                                  | Inr s2 \<Rightarrow> (s2, Inr (True, f5))))))))"

text \<open>\<^verbatim>\<open>ValidationService.get_findings\<close>. A filter applies when its argument is truthy:
  a non-empty source id, any severity, any stage, any time.\<close>

definition get_findings ::
  "validation_service \<Rightarrow> string option \<Rightarrow> ValidationSeverity option \<Rightarrow> ValidationStage option
     \<Rightarrow> real option \<Rightarrow> real option \<Rightarrow> ValidationFinding list" where
  "get_findings s source_filter severity_filter stage_filter start_time_filter end_time_filter =
     filter (\<lambda>f. (case end_time_filter of None \<Rightarrow> True | Some t \<Rightarrow> f_timestamp f \<le> t))
       (filter (\<lambda>f. (case start_time_filter of None \<Rightarrow> True | Some t \<Rightarrow> f_timestamp f \<ge> t))
          (filter (\<lambda>f. (case stage_filter of None \<Rightarrow> True | Some st \<Rightarrow> f_stage f = st))
             (filter (\<lambda>f. (case severity_filter of None \<Rightarrow> True | Some sv \<Rightarrow> f_severity f = sv))
                (filter (\<lambda>f. (case source_filter of
                                None \<Rightarrow> True
                              | Some sid \<Rightarrow> sid = [] \<or> f_source_id f = sid))
                   (findings_store s)))))"

text \<open>
  An evaluator for concrete runs: Python's \<^verbatim>\<open>eval\<close> on the condition of the default
  rule \<^verbatim>\<open>basic_range_check\<close>, a chained comparison of three names that must be bound to
  numbers. For every other text this instance reports a \<^verbatim>\<open>NameError\<close>, which is what
  \<^verbatim>\<open>eval\<close> with emptied builtins does on the other default SOURCE condition,
  \<^verbatim>\<open>abs(zscore) <= threshold\<close>.
\<close>

fun ctx_number :: "ctxval option \<Rightarrow> (real option) option" where
  "ctx_number (Some (CVal (PNum r))) = Some (Some r)"
| "ctx_number (Some (CVal (PBool b))) = Some (Some (if b then 1 else 0))"
| "ctx_number (Some CInf) = Some None"
| "ctx_number _ = None"

definition eval_range_condition :: "string \<Rightarrow> (string \<rightharpoonup> ctxval) \<Rightarrow> py_error + bool" where
  "eval_range_condition cond ctx =
     (if cond = ''min_value <= value <= max_value''
      then
        (case (ctx_number (ctx ''min_value''), ctx_number (ctx ''value''),
               ctx_number (ctx ''max_value'')) of
           (Some lo, Some (Some x), Some hi) \<Rightarrow>
             Inr ((case lo of None \<Rightarrow> False | Some l \<Rightarrow> l \<le> x)
                  \<and> (case hi of None \<Rightarrow> True | Some h \<Rightarrow> x \<le> h))
         | (Some lo, Some None, Some hi) \<Rightarrow>
             Inr ((case hi of None \<Rightarrow> True | Some h \<Rightarrow> False))
         | _ \<Rightarrow> Inl (NameError ''name is not defined or not a number''))
      else Inl (NameError ''name is not defined''))"

text \<open>A verifier that accepts every signature.\<close>

definition accept_all :: "nat \<Rightarrow> string \<Rightarrow> string \<Rightarrow> real \<Rightarrow> real \<Rightarrow> verify_outcome" where
  "accept_all key signature sid v ts = Verified"

text \<open>Whether a call of \<^verbatim>\<open>validate_data_point\<close> returned a finding of anomaly type
  \<^verbatim>\<open>PATTERN_BREAK\<close>.\<close>

definition emits_pattern_break :: "py_error + (bool \<times> ValidationFinding list) \<Rightarrow> bool" where
  "emits_pattern_break r =
     (case r of
        Inl e \<Rightarrow> False
      | Inr (ok, fs) \<Rightarrow> list_ex (\<lambda>f. f_anomaly_type f = Some PATTERN_BREAK) fs)"

text \<open>A list of findings without a \<^verbatim>\<open>PATTERN_BREAK\<close> finding.\<close>

definition no_pattern_break :: "ValidationFinding list \<Rightarrow> bool" where
  "no_pattern_break fs = (\<not> list_ex (\<lambda>f. f_anomaly_type f = Some PATTERN_BREAK) fs)"

text \<open>A default service that has stored 30 samples of the value 100 for source \<open>s1\<close>,
  one every 60 s from time 0.\<close>

definition steady_service :: validation_service where
  "steady_service =
     new_validation_service
       \<lparr>historical_data :=
          [''s1'' \<mapsto> zip (map (\<lambda>i. 60 * real i) [0..<30]) (replicate 30 100)]\<rparr>"

section \<open>data\_source\_adapter.py: the adapters\<close>

text \<open>What a fetch can hand back: a dictionary, or another Python value (\<^verbatim>\<open>None\<close>, or a
  JSON document that is not an object). \<open>truthy\<close> is Python's truth value.\<close>

datatype pyobj = ODict pydict | OVal pyval



text \<open>One call of \<^verbatim>\<open>monitor.record_metric(name, value, labels)\<close>. The adapter makes
  the call and does not wait for it (in \<^verbatim>\<open>monitoring_service.py\<close> the method is a
  coroutine function); the model keeps the calls made, in order.\<close>

record metric =
  m_name :: string
  m_value :: real
  m_labels :: "(string \<times> string) list"

datatype adapter_kind = Rest | WebSocket | Database | FileSystem

text \<open>
  The state of an adapter: its class, its configuration, whether a monitor is attached and
  the metric calls made on it, the \<^verbatim>\<open>CacheManager\<close>'s dictionary (key to data and
  time stamp), whether the session, socket or pool exists, the WebSocket adapter's
  \<^verbatim>\<open>_latest_data\<close>, and the rate limiter's time stamps. \<open>requests\<close> is not a field of the
  source: it counts the runs of the request function, that is, the contacts with the data
  source.
\<close>

record adapter =
  kind :: adapter_kind
  adapter_config :: AdapterConfig
  has_monitor :: bool
  metrics :: "metric list"
  cache :: "string \<rightharpoonup> (pyobj \<times> real)"
  connected :: bool
  latest_data :: "pyobj option"
  rate_timestamps :: "real list"
  requests :: nat

text \<open>\<^verbatim>\<open>BaseAdapter.__init__\<close> for an adapter of class \<open>k\<close>: an empty cache, no
  connection, and the metric \<^verbatim>\<open>adapter_initialized_...\<close> when a monitor is attached.\<close>

definition new_adapter :: "adapter_kind \<Rightarrow> AdapterConfig \<Rightarrow> bool \<Rightarrow> adapter" where
  "new_adapter k cfg monitor =
     \<lparr>kind = k, adapter_config = cfg, has_monitor = monitor,
      metrics = (if monitor
                 then [\<lparr>m_name = ''adapter_initialized_'' @ source_type cfg, m_value = 1,
                        m_labels = [(''source_id'', source_id cfg)]\<rparr>]
                 else []),
      cache = Map.empty, connected = False, latest_data = None,
      rate_timestamps = [], requests = 0\<rparr>"

text \<open>\<^verbatim>\<open>AdapterFactory._adapter_types\<close> and \<^verbatim>\<open>AdapterFactory.create_adapter\<close>; an unknown
  source type raises.\<close>

definition adapter_types :: "(string \<times> adapter_kind) list" where
  "adapter_types = [(''rest'', Rest), (''websocket'', WebSocket), (''database'', Database),
                    (''filesystem'', FileSystem)]"

definition create_adapter :: "AdapterConfig \<Rightarrow> bool \<Rightarrow> py_error + adapter" where
  "create_adapter cfg monitor =
     (case map_of adapter_types (source_type cfg) of
        None \<Rightarrow> Inl (ValueError (''Unknown adapter type: '' @ source_type cfg))
      | Some k \<Rightarrow> Inr (new_adapter k cfg monitor))"



definition record_error :: "adapter \<Rightarrow> string \<Rightarrow> adapter" where
  "record_error a error_type =
     (if has_monitor a
      then a\<lparr>metrics := metrics a @
                [\<lparr>m_name = ''source_errors'', m_value = 1,
                  m_labels = [(''source_id'', source_id (adapter_config a)),
                              (''error_type'', error_type),
                              (''source_type'', source_type (adapter_config a))]\<rparr>]\<rparr>
      else a)"


text \<open>\<^verbatim>\<open>CacheManager.get\<close> and \<^verbatim>\<open>CacheManager.set\<close>; the time to live is the
  configuration's \<^verbatim>\<open>cache_ttl\<close>. An expired entry is deleted.\<close>

definition cache_get :: "adapter \<Rightarrow> string \<Rightarrow> real \<Rightarrow> pyobj option \<times> adapter" where
  "cache_get a key now =
     (case cache a key of
        None \<Rightarrow> (None, a)
      | Some (data, stamp) \<Rightarrow>
          if now - stamp < cache_ttl (adapter_config a) then (Some data, a)
          else (None, a\<lparr>cache := (cache a)(key := None)\<rparr>))"



















text \<open>The name of a class in \<^verbatim>\<open>_adapter_types\<close>, and a fresh adapter of class \<open>k\<close> with
  the default configuration (\<^verbatim>\<open>cache_ttl = 60\<close>) and a monitor or none.\<close>

fun type_name :: "adapter_kind \<Rightarrow> string" where
  "type_name Rest = ''rest''"
| "type_name WebSocket = ''websocket''"
| "type_name Database = ''database''"
| "type_name FileSystem = ''filesystem''"

definition fresh_adapter :: "adapter_kind \<Rightarrow> bool \<Rightarrow> adapter" where
  "fresh_adapter k monitor =
     new_adapter k (default_adapter_config ''s1'' (type_name k) ''endpoint'') monitor"

chapter \<open>Properties\<close>

section \<open>DataAggregator\<close>

lemma py_mean_replicate: "0 < n \<Longrightarrow> py_mean (replicate n v) = v"
  by (simp add: py_mean_def sum_list_replicate)

lemma py_variance_replicate: "py_variance (replicate n v) = 0"
proof (cases "n = 0")
  case True
  then show ?thesis by (simp add: py_variance_def)
next
  case False
  then have "py_mean (replicate n v) = v" by (simp add: py_mean_replicate)
  then show ?thesis by (simp add: py_variance_def Let_def sum_list_replicate)
qed

lemma py_stdev_replicate: "py_stdev (replicate n v) = 0"
  by (simp add: py_stdev_def py_variance_replicate)

lemma float_values_all_equal:
  "\<forall>d \<in> set ds. py_float (point_value d) = Inr v \<Longrightarrow>
   float_values ds = Inr (replicate (length ds) v)"
  by (induction ds) simp_all

text \<open>
  \<^bold>\<open>C10.\<close> When \<^verbatim>\<open>aggregate\<close> receives two or more data points (with as many
  weights) whose numeric values are all equal, the sample standard deviation is zero, the
  z-score of the outlier filter divides by it, and \<^verbatim>\<open>aggregate\<close> ends with a
  \<^verbatim>\<open>ZeroDivisionError\<close> instead of returning the weighted mean. This holds for every
  outlier threshold.
\<close>

theorem aggregate_equal_values_raises:
  assumes len: "2 \<le> length data_points"
    and wl: "length weights = length data_points"
    and eq: "\<forall>d \<in> set data_points. py_float (point_value d) = Inr v"
  shows "aggregate thr data_points weights = Inl (ZeroDivisionError ''float division by zero'')"
proof -
  have fv: "float_values data_points = Inr (replicate (length data_points) v)"
    using eq by (rule float_values_all_equal)
  have ne: "data_points \<noteq> []" "weights \<noteq> []"
    using len wl by auto
  have z: "zip (replicate (length data_points) v) weights \<noteq> []"
    using ne wl by (cases data_points; cases weights) auto
  have ro: "remove_outliers thr (replicate (length data_points) v) weights
              = Inl (ZeroDivisionError ''float division by zero'')"
    using len z by (simp add: remove_outliers_def py_stdev_replicate Let_def)
  show ?thesis
    using ne wl fv ro by (simp add: aggregate_def)
qed

theorem aggregate_equal_values_raises_witness:
  "aggregate default_outlier_threshold [numeric_point 5, numeric_point 5] [1, 1]
     = Inl (ZeroDivisionError ''float division by zero'')"
  using aggregate_equal_values_raises
    [of "[numeric_point 5, numeric_point 5]" "[1, 1]" 5 default_outlier_threshold]
  by (simp add: numeric_point_def point_value_def)

lemma happy_path_variance: "py_variance [100, 201 / 2, 199 / 2] = 1 / 4"
  by (simp add: py_variance_def py_mean_def Let_def power2_eq_square)

lemma happy_path_stdev: "py_stdev [100, 201 / 2, 199 / 2] = 1 / 2"
  by (simp add: py_stdev_def happy_path_variance real_sqrt_divide)

lemma happy_path_outliers:
  "remove_outliers 2 [100, 201 / 2, 199 / 2] [1, 1, 1] = Inr ([100, 201 / 2, 199 / 2], [1, 1, 1])"
  by (simp add: remove_outliers_def happy_path_stdev Let_def py_mean_def)

lemma happy_path_result:
  "aggregate default_outlier_threshold happy_path_points [1, 1, 1]
     = Inr \<lparr>agg_value = 100, confidence = 12 / 25, num_sources = 3\<rparr>"
  by (simp add: aggregate_def happy_path_points_def numeric_point_def point_value_def
      default_outlier_threshold_def happy_path_outliers calculate_confidence_def
      happy_path_variance Let_def)

text \<open>
  \<^bold>\<open>C6\<close>, as the spec states it, asks for a confidence above 0.5 in the three-source
  scenario. The code returns the weighted mean 100.0 over three sources, and its
  confidence formula gives \<open>1 / (1 + 0.25) * 1 * (3 / 5) = 0.48\<close>, which is not above 0.5.
\<close>

theorem happy_path_confidence_counterexample:
  "aggregate default_outlier_threshold happy_path_points [1, 1, 1]
     = Inr \<lparr>agg_value = 100, confidence = 12 / 25, num_sources = 3\<rparr>
   \<and> \<not> (1 / 2 < confidence \<lparr>agg_value = 100, confidence = 12 / 25, num_sources = 3\<rparr>)"
  using happy_path_result by simp

text \<open>
  \<^bold>\<open>C6\<close>, amended. Aggregating 100.0, 100.5, 99.5 under weights \<open>[1, 1, 1]\<close> and
  outlier threshold 2.0 keeps all three points and returns the weighted mean 100.0 with
  \<open>num_sources = 3\<close> and confidence 0.48; the confidence is
  \<open>min 1 (1 / (1 + variance) * avg_weight * min 1 (n / 5))\<close> with the sample variance
  0.25 of the three values, average weight 1 and \<open>n = 3\<close>.
\<close>

theorem happy_path_aggregate:
  "aggregate default_outlier_threshold happy_path_points [1, 1, 1]
     = Inr \<lparr>agg_value = 100, confidence = 12 / 25, num_sources = 3\<rparr>
   \<and> calculate_confidence [100, 201 / 2, 199 / 2] [1, 1, 1]
     = Inr (min 1 (1 / (1 + py_variance [100, 201 / 2, 199 / 2])
                    * (sum_list [1, 1, 1] / 3) * min 1 (3 / 5)))
   \<and> py_variance [100, 201 / 2, 199 / 2] = 1 / 4"
  using happy_path_result
  by (simp add: calculate_confidence_def happy_path_variance Let_def)

section \<open>The scheduler: retry decisions and completion\<close>

lemma should_retry_validation_default:
  "retry_policy task = retry_policies p \<Longrightarrow>
   should_retry task execution VALIDATION_ERROR = (p = CRITICAL \<and> retry_count execution < 5)"
  by (cases p) (auto simp: should_retry_def)

lemma execute_task_failed_status:
  assumes "tasks sch tid = Some task"
    and "\<not> is_in_maintenance sch now tid"
    and "int (length (filter (\<lambda>e. exec_task_id e = tid \<and> status e = RUNNING)
                (map snd (executions sch)))) < max_concurrent task"
    and "execute_body f task = Inl e"
  shows "execution_status (execute_task f now el eid sch tid) eid =
     Some (if should_retry task
                (new_execution eid tid now (scheduler_node sch)
                   \<lparr>status := FAILED, error := Some (str_of_error e), end_time := Some now\<rparr>)
                (classify_failure (str_of_error e))
           then RETRYING else FAILED)"
  using assms
  by (simp add: execute_task_def Let_def execution_status_def update_conv' schedule_retry_def)


lemma classify_unknown_validation_feed:
  "classify_failure ''Unknown adapter type: validation_feed'' = VALIDATION_ERROR"
  by (simp add: classify_failure_def py_lower_def lower_char_def)

lemma scheduler_with_gates:
  "tasks (scheduler_with task) (task_id task) = Some task"
  "\<not> is_in_maintenance (scheduler_with task) now (task_id task)"
  "length (filter (\<lambda>e. exec_task_id e = tid \<and> status e = RUNNING)
     (map snd (executions (scheduler_with task)))) = 0"
  by (simp_all add: scheduler_with_def is_in_maintenance_def)

lemma failing_factory_body:
  "execute_body (failing_factory msg) (create_task n (c # cs) vr ks p a b t) = Inl (ValueError msg)"
  by (simp add: execute_body_def create_task_def failing_factory_def)

text \<open>
  \<^bold>\<open>C3\<close>, as stated, says that a failure classified as ValidationError is never retried,
  for every priority, Critical included. The default policy of a Critical task lists every
  failure class: \<^verbatim>\<open>_should_retry\<close> returns true for ValidationError on a fresh execution
  of a Critical task, and the execution of a Critical task whose adapter factory raises
  "Unknown adapter type: validation\_feed" ends in status Retrying.
\<close>

theorem critical_validation_error_retried_counterexample:
  "should_retry (create_task 7 [default_adapter_config ''s1'' ''validation_feed'' ''e1'']
                   numeric_rules [] CRITICAL 1 1 300)
                (new_execution 42 7 0 ''node-1'') VALIDATION_ERROR
   \<and> execution_status
       (execute_task (failing_factory ''Unknown adapter type: validation_feed'') 0 0 42
          (scheduler_with (create_task 7 [default_adapter_config ''s1'' ''validation_feed'' ''e1'']
                             numeric_rules [] CRITICAL 1 1 300)) 7) 42
     = Some RETRYING"
proof -
  let ?T = "create_task 7 [default_adapter_config ''s1'' ''validation_feed'' ''e1'']
              numeric_rules [] CRITICAL 1 1 300"
  let ?msg = "''Unknown adapter type: validation_feed''"
  have tid: "task_id ?T = 7" by (simp add: create_task_def)
  have t: "tasks (scheduler_with ?T) 7 = Some ?T"
    using scheduler_with_gates(1) [of ?T] tid by simp
  have nm: "\<not> is_in_maintenance (scheduler_with ?T) 0 7"
    using scheduler_with_gates(2) [of ?T 0] tid by simp
  have conc: "int (length (filter (\<lambda>e. exec_task_id e = 7 \<and> status e = RUNNING)
                (map snd (executions (scheduler_with ?T))))) < max_concurrent ?T"
    by (simp add: scheduler_with_def create_task_def)
  have body: "execute_body (failing_factory ?msg) ?T = Inl (ValueError ?msg)"
    by (rule failing_factory_body)
  have a: "should_retry ?T (new_execution 42 7 0 ''node-1'') VALIDATION_ERROR"
    by (simp add: should_retry_def create_task_def new_execution_def)
  have sr: "should_retry ?T
              (new_execution 42 7 0 (scheduler_node (scheduler_with ?T))
                 \<lparr>status := FAILED, error := Some (str_of_error (ValueError ?msg)),
                    end_time := Some 0\<rparr>)
              (classify_failure (str_of_error (ValueError ?msg)))"
    by (simp add: should_retry_def create_task_def new_execution_def
        classify_unknown_validation_feed)
  have b: "execution_status (execute_task (failing_factory ?msg) 0 0 42 (scheduler_with ?T) 7) 42
             = Some RETRYING"
    using execute_task_failed_status [OF t nm conc body, where el = 0 and eid = 42] sr
    by (simp only: if_True)
  from a b show ?thesis by (rule conjI)
qed

text \<open>
  \<^bold>\<open>C3\<close>, amended. For a task whose retry policy is the default policy of its priority
  \<open>p\<close>: \<^verbatim>\<open>_should_retry\<close> returns true for ValidationError exactly when \<open>p\<close> is Critical
  and the execution's retry count is below 5; and when a run of the task passes the
  maintenance and concurrency gates and its body raises an error classified as
  ValidationError, the execution ends Failed for High, Medium and Low and Retrying for
  Critical.
\<close>

theorem validation_error_retry_by_priority:
  assumes t: "tasks sch tid = Some task"
    and pol: "retry_policy task = retry_policies p"
    and nm: "\<not> is_in_maintenance sch now tid"
    and conc: "int (length (filter (\<lambda>e. exec_task_id e = tid \<and> status e = RUNNING)
                (map snd (executions sch)))) < max_concurrent task"
    and body: "execute_body f task = Inl e"
    and cls: "classify_failure (str_of_error e) = VALIDATION_ERROR"
  shows "should_retry task execution VALIDATION_ERROR
           = (p = CRITICAL \<and> retry_count execution < 5)
       \<and> execution_status (execute_task f now el eid sch tid) eid
           = Some (if p = CRITICAL then RETRYING else FAILED)"
proof -
  have a: "should_retry task execution VALIDATION_ERROR
             = (p = CRITICAL \<and> retry_count execution < 5)"
    using pol by (rule should_retry_validation_default)
  let ?failed = "new_execution eid tid now (scheduler_node sch)
                   \<lparr>status := FAILED, error := Some (str_of_error e), end_time := Some now\<rparr>"
  have rc: "retry_count ?failed = 0" by (simp add: new_execution_def)
  have "should_retry task ?failed VALIDATION_ERROR = (p = CRITICAL)"
    using should_retry_validation_default [OF pol, of ?failed] rc by simp
  then have b: "execution_status (execute_task f now el eid sch tid) eid
                  = Some (if p = CRITICAL then RETRYING else FAILED)"
    using execute_task_failed_status [OF t nm conc body, where el = el and eid = eid] cls by simp
  from a b show ?thesis by simp
qed

theorem validation_error_retry_by_priority_witness:
  "should_retry (create_task 7 [default_adapter_config ''s1'' ''validation_feed'' ''e1'']
                   numeric_rules [] HIGH 1 1 300)
                (new_execution 42 7 0 ''node-1'') VALIDATION_ERROR
     = (HIGH = CRITICAL \<and> retry_count (new_execution 42 7 0 ''node-1'') < 5)
   \<and> execution_status
       (execute_task (failing_factory ''Unknown adapter type: validation_feed'') 0 0 42
          (scheduler_with (create_task 7 [default_adapter_config ''s1'' ''validation_feed'' ''e1'']
                             numeric_rules [] HIGH 1 1 300)) 7) 42
     = Some FAILED"
proof -
  let ?T = "create_task 7 [default_adapter_config ''s1'' ''validation_feed'' ''e1'']
              numeric_rules [] HIGH 1 1 300"
  have tid: "task_id ?T = 7" by (simp add: create_task_def)
  have t: "tasks (scheduler_with ?T) 7 = Some ?T"
    using scheduler_with_gates(1) [of ?T] tid by simp
  have pol: "retry_policy ?T = retry_policies HIGH" by (simp add: create_task_def)
  have nm: "\<not> is_in_maintenance (scheduler_with ?T) 0 7"
    using scheduler_with_gates(2) [of ?T 0] tid by simp
  have conc: "int (length (filter (\<lambda>e. exec_task_id e = 7 \<and> status e = RUNNING)
                (map snd (executions (scheduler_with ?T))))) < max_concurrent ?T"
    by (simp add: scheduler_with_def create_task_def)
  have body: "execute_body (failing_factory ''Unknown adapter type: validation_feed'') ?T
                = Inl (ValueError ''Unknown adapter type: validation_feed'')"
    by (rule failing_factory_body)
  have cls: "classify_failure (str_of_error (ValueError ''Unknown adapter type: validation_feed''))
               = VALIDATION_ERROR"
    by (simp add: classify_unknown_validation_feed)
  show ?thesis
    using validation_error_retry_by_priority [OF t pol nm conc body cls,
        where execution = "new_execution 42 7 0 ''node-1''" and el = 0 and eid = 42]
    by simp
qed






section \<open>The transaction manager: nonces and stuck transactions\<close>

lemma get_next_nonce_hit:
  assumes "nonce_cache s a = Some (n, t)" and "now - t < max_nonce_cache_age s"
  shows "get_next_nonce ch now a s = (n, s)"
  using assms by (simp add: get_next_nonce_def)

text \<open>
  \<^bold>\<open>C1.\<close> The claim is that transactions submitted from one address within
  \<^verbatim>\<open>max_nonce_cache_age\<close> get distinct, consecutive nonces. In the code the cache entry
  is written only when the chain is read (\<open>nonce + 1\<close>); a cache hit returns the cached
  nonce and leaves the entry as it is. A fresh service with account \<open>0xA\<close>, whose node
  reports 7, 8 and 9 pending transactions at the times 0, 1 and 2 s, hands out the nonces
  7, 8 and 8: the second and the third transaction share nonce 8.
\<close>

theorem get_tx_params_repeats_nonce:
  "(case get_tx_params (simple_chain 100 7 (sample_tx 10 None) ''0xH'') 0
           (new_eth_service \<lparr>chain_id = 1, max_gas_price = 100\<rparr> (Some ''0xA'')) of
      (r1, s1) \<Rightarrow>
        (case get_tx_params (simple_chain 100 8 (sample_tx 10 None) ''0xH'') 1 s1 of
           (r2, s2) \<Rightarrow>
             (case get_tx_params (simple_chain 100 9 (sample_tx 10 None) ''0xH'') 2 s2 of
                (r3, s3) \<Rightarrow> map (map_sum id tp_nonce) [r1, r2, r3])))
   = [Inr 7, Inr 8, Inr 8]"
  by (simp add: get_tx_params_def get_next_nonce_def get_optimal_gas_price_def
      new_eth_service_def simple_chain_def Let_def)











section \<open>The validator: history, findings store and the pattern check\<close>

lemma update_source_stats_frame:
  "update_source_stats s sid v ts = Inr s2 \<Longrightarrow>
   historical_data s2 = historical_data s \<and> findings_store s2 = findings_store s"
  by (auto simp: update_source_stats_def Let_def split: option.splits if_splits)

lemma record_point_frame:
  "findings_store (record_point s sid v ts now) = findings_store s"
  "historical_data (record_point s sid v ts now) sid
     = Some (filter (\<lambda>(t, x). now - history_window s < t) (series_of s sid @ [(ts, v)]))"
  "sid' \<noteq> sid \<Longrightarrow> historical_data (record_point s sid v ts now) sid' = historical_data s sid'"
  by (simp_all add: record_point_def Let_def)

lemma validate_data_point_state:
  "historical_data (fst (validate_data_point py_eval verify s sid stype v ts md sg now))
     = historical_data (record_point s sid v ts now)
   \<and> findings_store (fst (validate_data_point py_eval verify s sid stype v ts md sg now))
     = findings_store s"
  by (auto simp: validate_data_point_def Let_def record_point_frame(1)
      dest: update_source_stats_frame
      split: prod.splits sum.splits bool.splits option.splits if_splits)

lemma default_source_rules:
  "filter (\<lambda>rule. stage rule = SOURCE
                  \<and> (source_types rule = {''all''} \<or> ''generic'' \<in> source_types rule))
     default_rules = [hd default_rules]"
  by (simp add: default_rules_def)

lemma negative_point_source_stage:
  "validate_source eval_range_condition (record_point new_validation_service ''s1'' (- 1) 100 100)
     ''s1'' ''generic'' (- 1) 100 Map.empty 100 []
   = (False, [source_finding (hd default_rules) ''s1'' 100])"
  by (simp add: validate_source_def record_point_def Let_def new_validation_service_def
      default_source_rules)
     (simp add: default_rules_def eval_range_condition_def rule_context_def)

lemma negative_point_rejected:
  "validate_data_point eval_range_condition accept_all new_validation_service
     ''s1'' ''generic'' (- 1) 100 Map.empty None 100
   = (record_point new_validation_service ''s1'' (- 1) 100 100,
      Inr (False, [source_finding (hd default_rules) ''s1'' 100]))"
  by (simp add: validate_data_point_def Let_def negative_point_source_stage)

lemma stale_point_accepted:
  "validate_data_point eval_range_condition accept_all new_validation_service
     ''s1'' ''generic'' 5 0 Map.empty None 10000
   = (record_point new_validation_service ''s1'' 5 0 10000, Inr (True, []))"
proof -
  let ?s1 = "record_point new_validation_service ''s1'' 5 0 10000"
  have h: "historical_data ?s1 ''s1'' = Some []"
    by (simp add: record_point_def Let_def new_validation_service_def series_of_def)
  have cfg: "rules ?s1 = default_rules" "source_stats ?s1 = []"
    "min_history_points ?s1 = 10" "min_consensus_sources ?s1 = 3"
    by (simp_all add: record_point_def Let_def new_validation_service_def)
  have a: "validate_source eval_range_condition ?s1 ''s1'' ''generic'' 5 0 Map.empty 10000 []
             = (True, [])"
    by (simp add: validate_source_def cfg default_source_rules)
       (simp add: default_rules_def eval_range_condition_def rule_context_def)
  have b: "validate_cross_source ?s1 ''s1'' 5 10000 [] = (True, [])"
    by (simp add: validate_cross_source_def cfg)
  have c: "validate_temporal ?s1 ''s1'' 5 0 10000 [] = Inr (True, [])"
    by (simp add: validate_temporal_def h cfg)
  have d: "validate_consensus ?s1 ''s1'' 5 10000 [] = (True, [])"
    by (simp add: validate_consensus_def cfg)
  have e: "update_source_stats ?s1 ''s1'' 5 0 = Inr ?s1"
    by (simp add: update_source_stats_def h cfg)
  show ?thesis
    by (simp add: validate_data_point_def Let_def a b c d e)
qed

text \<open>
  \<^bold>\<open>C4\<close>, as stated, says that the entry is inserted only after acceptance, that a
  rejected point leaves the series unchanged and that every accepted point has an entry.
  On a default service, the point \<open>-1\<close> of source \<open>s1\<close> at time 100 is rejected by the
  range rule (a Critical finding) and is in the series afterwards, which did not exist
  before; and the point 5 with time stamp 0, validated at time 10000, is accepted and has
  no entry afterwards, being older than the window of 3600 s.
\<close>

theorem history_insert_counterexample:
  "snd (validate_data_point eval_range_condition accept_all new_validation_service
          ''s1'' ''generic'' (- 1) 100 Map.empty None 100)
     = Inr (False, [source_finding (hd default_rules) ''s1'' 100])
   \<and> historical_data new_validation_service ''s1'' = None
   \<and> historical_data
        (fst (validate_data_point eval_range_condition accept_all new_validation_service
                ''s1'' ''generic'' (- 1) 100 Map.empty None 100)) ''s1''
     = Some [(100, - 1)]
   \<and> snd (validate_data_point eval_range_condition accept_all new_validation_service
            ''s1'' ''generic'' 5 0 Map.empty None 10000)
     = Inr (True, [])
   \<and> historical_data
        (fst (validate_data_point eval_range_condition accept_all new_validation_service
                ''s1'' ''generic'' 5 0 Map.empty None 10000)) ''s1''
     = Some []"
  by (simp add: negative_point_rejected stale_point_accepted record_point_frame(2))
     (simp add: new_validation_service_def series_of_def)

text \<open>
  \<^bold>\<open>C4\<close>, amended. Every call of \<^verbatim>\<open>validate_data_point\<close>, whether it accepts the
  point, rejects it or ends in an exception, first appends \<open>(ts, value)\<close> to the source's
  series and then keeps exactly the entries with a time stamp newer than
  \<open>now - history_window\<close>. So after the call no entry of that series is older than the
  window, the point itself has an entry exactly when its own time stamp is newer than
  \<open>now - history_window\<close> (accepted or not), and the series of the other sources are
  unchanged.
\<close>

theorem history_after_validate:
  "historical_data (fst (validate_data_point py_eval verify s sid stype v ts md sg now)) sid
     = Some (filter (\<lambda>(t, x). now - history_window s < t) (series_of s sid @ [(ts, v)]))
   \<and> list_all (\<lambda>(t, x). now - history_window s < t)
        (series_of (fst (validate_data_point py_eval verify s sid stype v ts md sg now)) sid)
   \<and> (((ts, v) \<in> set (series_of
                         (fst (validate_data_point py_eval verify s sid stype v ts md sg now)) sid))
        = (now - history_window s < ts))
   \<and> (sid' \<noteq> sid \<longrightarrow>
        historical_data (fst (validate_data_point py_eval verify s sid stype v ts md sg now)) sid'
          = historical_data s sid')"
proof -
  let ?s' = "fst (validate_data_point py_eval verify s sid stype v ts md sg now)"
  have h: "historical_data ?s' = historical_data (record_point s sid v ts now)"
    using validate_data_point_state by blast
  have a: "historical_data ?s' sid
     = Some (filter (\<lambda>(t, x). now - history_window s < t) (series_of s sid @ [(ts, v)]))"
    by (simp add: h record_point_frame(2))
  then have ser: "series_of ?s' sid
     = filter (\<lambda>(t, x). now - history_window s < t) (series_of s sid @ [(ts, v)])"
    by (simp add: series_of_def)
  have b: "list_all (\<lambda>(t, x). now - history_window s < t) (series_of ?s' sid)"
    by (simp add: ser list_all_iff)
  have c: "((ts, v) \<in> set (series_of ?s' sid)) = (now - history_window s < ts)"
    by (auto simp: ser)
  have d: "sid' \<noteq> sid \<longrightarrow> historical_data ?s' sid' = historical_data s sid'"
    by (simp add: h record_point_frame(3))
  from a b c d show ?thesis by (intro conjI)
qed

theorem history_after_validate_witness:
  "historical_data
     (fst (validate_data_point eval_range_condition accept_all new_validation_service
             ''s1'' ''generic'' (- 1) 100 Map.empty None 100)) ''s1''
     = Some [(100, - 1)]
   \<and> historical_data
       (fst (validate_data_point eval_range_condition accept_all new_validation_service
               ''s1'' ''generic'' (- 1) 100 Map.empty None 100)) ''s2''
     = None"
  using history_after_validate [of eval_range_condition accept_all new_validation_service
      "''s1''" "''generic''" "- 1" 100 Map.empty None 100 "''s2''"]
  by (simp add: new_validation_service_def series_of_def)

text \<open>
  \<^bold>\<open>C9.\<close> The claim is that every finding produced while validating is recorded in the
  validator's findings store and is returned by a later \<^verbatim>\<open>get_findings\<close>. The code
  collects the findings of a call in a local list and returns it; \<^verbatim>\<open>self._findings\<close> is
  assigned once, in \<^verbatim>\<open>__init__\<close>, and never written again. On a default service, validating
  \<open>-1\<close> for source \<open>s1\<close> at time 100 returns one Critical SOURCE finding of rule 1, and
  \<^verbatim>\<open>get_findings\<close> afterwards returns the empty list, both without filters and with the
  filters that match this finding.
\<close>

theorem findings_never_recorded:
  "snd (validate_data_point eval_range_condition accept_all new_validation_service
          ''s1'' ''generic'' (- 1) 100 Map.empty None 100)
     = Inr (False,
            [\<lparr>f_rule_id = Some 1, f_source_id = ''s1'', f_stage = SOURCE,
              f_severity = Sev_CRITICAL, f_anomaly_type = Some STATISTICAL_OUTLIER,
              f_message = ''Source validation failed: Validate value within allowed range'',
              f_timestamp = 100\<rparr>])
   \<and> get_findings
        (fst (validate_data_point eval_range_condition accept_all new_validation_service
                ''s1'' ''generic'' (- 1) 100 Map.empty None 100))
        None None None None None = []
   \<and> get_findings
        (fst (validate_data_point eval_range_condition accept_all new_validation_service
                ''s1'' ''generic'' (- 1) 100 Map.empty None 100))
        (Some ''s1'') (Some Sev_CRITICAL) (Some SOURCE) (Some 100) (Some 100) = []"
proof -
  let ?r = "validate_data_point eval_range_condition accept_all new_validation_service
              ''s1'' ''generic'' (- 1) 100 Map.empty None 100"
  have a: "snd ?r = Inr (False,
            [\<lparr>f_rule_id = Some 1, f_source_id = ''s1'', f_stage = SOURCE,
              f_severity = Sev_CRITICAL, f_anomaly_type = Some STATISTICAL_OUTLIER,
              f_message = ''Source validation failed: Validate value within allowed range'',
              f_timestamp = 100\<rparr>])"
    by (simp add: negative_point_rejected source_finding_def default_rules_def)
  have st: "findings_store (fst ?r) = []"
    using validate_data_point_state
      [of eval_range_condition accept_all new_validation_service "''s1''" "''generic''"
          "- 1" 100 Map.empty None 100]
    by (simp add: new_validation_service_def)
  have b: "get_findings (fst ?r) x1 x2 x3 x4 x5 = []" for x1 x2 x3 x4 x5
    by (simp add: get_findings_def st)
  from a b show ?thesis by simp
qed

lemma np_std_nonneg: "0 \<le> np_std xs"
proof -
  have "0 \<le> sum_list (map (\<lambda>x. (x - np_mean xs)\<^sup>2) xs)"
    by (rule sum_list_nonneg) auto
  then show ?thesis by (simp add: np_std_def)
qed

lemma pattern_break_not_detected_on_itself:
  assumes "values \<noteq> []" and "last values = v"
  shows "\<not> pattern_break_detected values v"
proof (cases "list_all (\<lambda>x. 0 < x) values")
  case False
  then show ?thesis by (simp add: pattern_break_detected_def)
next
  case True
  have "v \<in> set values" using assms by auto
  then have pos: "0 < v" using True by (auto simp: list_all_iff)
  have "\<bar>ln (v / last values)\<bar> = 0" using pos assms by simp
  moreover have "0 \<le> 3 * np_std (np_diff (map ln values))"
    using np_std_nonneg [of "np_diff (map ln values)"] by simp
  ultimately show ?thesis using pos True by (simp add: pattern_break_detected_def)
qed

lemma pattern_break_check_on_itself:
  assumes "history \<noteq> []" and "snd (last history) = v"
  shows "pattern_break_check sid v now history = Inr []
       \<or> (\<exists>e. pattern_break_check sid v now history = Inl e)"
proof -
  have l: "last (map snd history) = v" using assms by (simp add: last_map)
  have ne: "map snd history \<noteq> []" using assms by simp
  show ?thesis
    using pattern_break_not_detected_on_itself [OF ne l]
    by (simp add: pattern_break_check_def Let_def)
qed

lemma no_pattern_break_append:
  "no_pattern_break (xs @ ys) = (no_pattern_break xs \<and> no_pattern_break ys)"
  by (auto simp: no_pattern_break_def list_ex_iff)

lemma source_rules_loop_no_pattern_break:
  "no_pattern_break (snd acc) \<Longrightarrow>
   no_pattern_break (snd (source_rules_loop py_eval sid v ts md now rs acc))"
proof (induction rs arbitrary: acc)
  case Nil
  then show ?case by simp
next
  case (Cons r rs)
  obtain ok fs where acc: "acc = (ok, fs)" by (cases acc)
  have nf: "no_pattern_break [source_finding r sid now]"
    by (simp add: no_pattern_break_def source_finding_def)
  show ?case
    using Cons.prems acc nf
    by (auto simp: no_pattern_break_append split: sum.splits bool.splits intro!: Cons.IH)
qed

lemma validate_source_no_pattern_break:
  "validate_source py_eval s sid stype v ts md now [] = (ok, fs) \<Longrightarrow> no_pattern_break fs"
  using source_rules_loop_no_pattern_break
    [of "(True, [])" py_eval sid v ts md now
        "filter (\<lambda>rule. stage rule = SOURCE
                   \<and> (source_types rule = {''all''} \<or> stype \<in> source_types rule)) (rules s)"]
  by (simp add: validate_source_def no_pattern_break_def)

lemma validate_cross_source_no_pattern_break:
  "validate_cross_source s sid v now fs = (ok, fs') \<Longrightarrow> no_pattern_break fs \<Longrightarrow>
   no_pattern_break fs'"
  by (auto simp: validate_cross_source_def Let_def no_pattern_break_append no_pattern_break_def
      split: if_splits)

lemma validate_consensus_no_pattern_break:
  "validate_consensus s sid v now fs = (ok, fs') \<Longrightarrow> no_pattern_break fs \<Longrightarrow>
   no_pattern_break fs'"
  by (auto simp: validate_consensus_def Let_def no_pattern_break_append no_pattern_break_def
      split: if_splits)

lemma validate_cryptographic_no_pattern_break:
  "validate_cryptographic verify s sid v ts sg now fs = (ok, fs') \<Longrightarrow> no_pattern_break fs \<Longrightarrow>
   no_pattern_break fs'"
  by (auto simp: validate_cryptographic_def no_pattern_break_append no_pattern_break_def
      split: option.splits verify_outcome.splits)

lemma rapid_change_check_no_pattern_break:
  "rapid_change_check s sid v ts now history = Inr fs \<Longrightarrow> no_pattern_break fs"
  by (auto simp: rapid_change_check_def Let_def no_pattern_break_def split: if_splits)

lemma validate_temporal_no_pattern_break:
  assumes h: "historical_data s sid = Some history"
    and ne: "history \<noteq> []" and l: "snd (last history) = v"
    and r: "validate_temporal s sid v ts now fs = Inr (ok, fs')"
    and nb: "no_pattern_break fs"
  shows "no_pattern_break fs'"
proof (cases "int (length history) < min_history_points s")
  case True
  then show ?thesis using h r nb by (simp add: validate_temporal_def)
next
  case False
  from r h False obtain rapid pattern where
    rc: "rapid_change_check s sid v ts now history = Inr rapid"
    and pc: "pattern_break_check sid v now history = Inr pattern"
    and fs': "fs' = fs @ rapid @ pattern"
    by (auto simp: validate_temporal_def split: sum.splits)
  have "pattern = []" using pattern_break_check_on_itself [OF ne l, of sid now] pc by auto
  then show ?thesis
    using fs' nb rapid_change_check_no_pattern_break [OF rc]
    by (simp add: no_pattern_break_append)
qed

lemma record_point_fresh:
  assumes "now - history_window s < ts"
  shows "\<exists>history. historical_data (record_point s sid v ts now) sid = Some history
           \<and> history \<noteq> [] \<and> snd (last history) = v"
  using assms by (simp add: record_point_frame(2))

lemma validate_data_point_no_pattern_break:
  assumes fresh: "now - history_window s < ts"
    and r: "snd (validate_data_point py_eval verify s sid stype v ts md sg now) = Inr (ok, fs)"
  shows "no_pattern_break fs"
proof -
  let ?s1 = "record_point s sid v ts now"
  obtain history where h: "historical_data ?s1 sid = Some history"
    and ne: "history \<noteq> []" and l: "snd (last history) = v"
    using record_point_fresh [OF fresh] by blast
  obtain b1 f1 where st1: "validate_source py_eval ?s1 sid stype v ts md now [] = (b1, f1)"
    by (cases "validate_source py_eval ?s1 sid stype v ts md now []")
  have n1: "no_pattern_break f1" using st1 by (rule validate_source_no_pattern_break)
  show ?thesis
  proof (cases b1)
    case False
    then show ?thesis using r st1 n1 by (simp add: validate_data_point_def Let_def)
  next
    case b1: True
    obtain b2 f2 where st2: "validate_cross_source ?s1 sid v now f1 = (b2, f2)"
      by (cases "validate_cross_source ?s1 sid v now f1")
    have n2: "no_pattern_break f2"
      using st2 n1 by (rule validate_cross_source_no_pattern_break)
    show ?thesis
    proof (cases b2)
      case False
      then show ?thesis using r st1 b1 st2 n2 by (simp add: validate_data_point_def Let_def)
    next
      case b2: True
      show ?thesis
      proof (cases "validate_temporal ?s1 sid v ts now f2")
        case (Inl e)
        then show ?thesis using r st1 b1 st2 b2 by (simp add: validate_data_point_def Let_def)
      next
        case (Inr p)
        obtain b3 f3 where p: "p = (b3, f3)" by (cases p)
        have st3: "validate_temporal ?s1 sid v ts now f2 = Inr (b3, f3)" using Inr p by simp
        have n3: "no_pattern_break f3"
          using validate_temporal_no_pattern_break [OF h ne l st3 n2] .
        show ?thesis
        proof (cases b3)
          case False
          then show ?thesis
            using r st1 b1 st2 b2 st3 n3 by (simp add: validate_data_point_def Let_def)
        next
          case b3: True
          obtain b4 f4 where st4: "validate_consensus ?s1 sid v now f3 = (b4, f4)"
            by (cases "validate_consensus ?s1 sid v now f3")
          have n4: "no_pattern_break f4"
            using st4 n3 by (rule validate_consensus_no_pattern_break)
          show ?thesis
          proof (cases b4)
            case False
            then show ?thesis
              using r st1 b1 st2 b2 st3 b3 st4 n4 by (simp add: validate_data_point_def Let_def)
          next
            case b4: True
            let ?c = "case sg of
                        None \<Rightarrow> (True, f4)
                      | Some g \<Rightarrow>
                          if g = [] then (True, f4)
                          else validate_cryptographic verify ?s1 sid v ts g now f4"
            obtain b5 f5 where st5: "?c = (b5, f5)" by (cases ?c)
            have n5: "no_pattern_break f5"
              using st5 n4 validate_cryptographic_no_pattern_break
              by (auto split: option.splits if_splits)
            show ?thesis
              using r st1 b1 st2 b2 st3 b3 st4 b4 st5 n5
              by (cases b5)
                 (auto simp: validate_data_point_def Let_def split: sum.splits)
          qed
        qed
      qed
    qed
  qed
qed

lemma np_diff_replicate: "np_diff (replicate n c) = replicate (n - 1) 0"
proof (cases n)
  case 0
  then show ?thesis by (simp add: np_diff_def)
next
  case (Suc m)
  have "zip (replicate (Suc m) c) (replicate m c) = replicate m (c, c)"
    by (induction m) simp_all
  then show ?thesis using Suc by (simp add: np_diff_def)
qed

lemma np_std_zeros: "np_std (replicate n 0) = 0"
  by (simp add: np_std_def np_mean_def sum_list_replicate)

lemma steady_series:
  "map snd (series_of steady_service ''s1'') = replicate 30 100"
  "series_of steady_service ''s1'' \<noteq> []"
  by (simp_all add: steady_service_def series_of_def)

text \<open>
  \<^bold>\<open>C8.\<close> The claim is that, with at least 30 stored samples, the temporal stage emits
  a Medium PatternBreak finding exactly when \<open>|log (value / last accepted value)|\<close> exceeds
  three standard deviations of the log-differences of the stored history. In the code the
  point under validation is appended to the series before the stages run, and the pattern
  check divides \<open>value\<close> by \<^verbatim>\<open>values[-1]\<close>, which is then the point itself (the
  rapid-change check of the same function reads \<^verbatim>\<open>history[-2]\<close>). So for every point
  whose time stamp is inside the history window, whatever the state, the rules and the
  value, a call of \<^verbatim>\<open>validate_data_point\<close> returns no PatternBreak finding.
\<close>

theorem fresh_point_never_pattern_break:
  assumes fresh: "now - history_window s < ts"
  shows "\<not> emits_pattern_break
             (snd (validate_data_point py_eval verify s sid stype v ts md sg now))"
proof (cases "snd (validate_data_point py_eval verify s sid stype v ts md sg now)")
  case (Inl e)
  then show ?thesis by (simp add: emits_pattern_break_def)
next
  case (Inr p)
  obtain ok fs where p: "p = (ok, fs)" by (cases p)
  have "no_pattern_break fs"
    using validate_data_point_no_pattern_break [OF fresh] Inr p by simp
  then show ?thesis using Inr p by (simp add: emits_pattern_break_def no_pattern_break_def)
qed

theorem fresh_point_never_pattern_break_witness:
  "1800 - history_window steady_service < 1800
   \<and> \<not> emits_pattern_break
         (snd (validate_data_point eval_range_condition accept_all steady_service
                 ''s1'' ''generic'' 200 1800 Map.empty None 1800))
   \<and> 30 \<le> length (series_of steady_service ''s1'')
   \<and> last (map snd (series_of steady_service ''s1'')) = 100
   \<and> 3 * np_std (np_diff (map ln (map snd (series_of steady_service ''s1''))))
       < \<bar>ln (200 / last (map snd (series_of steady_service ''s1'')))\<bar>"
proof -
  have fresh: "1800 - history_window steady_service < 1800"
    by (simp add: steady_service_def new_validation_service_def)
  have len: "30 \<le> length (series_of steady_service ''s1'')"
    by (simp add: steady_service_def series_of_def)
  have lst: "last (map snd (series_of steady_service ''s1'')) = 100"
    by (simp add: steady_series(1))
  have sd: "np_std (np_diff (map ln (map snd (series_of steady_service ''s1'')))) = 0"
    by (simp add: steady_series(1) np_diff_replicate np_std_zeros)
  have big: "3 * np_std (np_diff (map ln (map snd (series_of steady_service ''s1''))))
       < \<bar>ln (200 / last (map snd (series_of steady_service ''s1'')))\<bar>"
    unfolding sd lst by simp
  show ?thesis
    using fresh_point_never_pattern_break [OF fresh, of eval_range_condition accept_all
        "''s1''" "''generic''" 200 Map.empty None] fresh len lst big
    by (intro conjI)
qed

section \<open>The adapters: cache hits and latency samples\<close>

text \<open>The factory builds the fresh adapters used below.\<close>

lemma create_adapter_fresh:
  "create_adapter (default_adapter_config ''s1'' (type_name k) ''endpoint'') monitor
     = Inr (fresh_adapter k monitor)"
  by (cases k)
     (simp_all add: create_adapter_def adapter_types_def fresh_adapter_def
        default_adapter_config_def)


lemma record_error_frame:
  "kind (record_error a et) = kind a"
  "adapter_config (record_error a et) = adapter_config a"
  "has_monitor (record_error a et) = has_monitor a"
  "cache (record_error a et) = cache a"
  "connected (record_error a et) = connected a"
  "requests (record_error a et) = requests a"
  by (simp_all add: record_error_def)




lemma cache_get_some:
  assumes "cache_get a key now = (Some data, a2)"
  shows "a2 = a"
  using assms
  by (auto simp add: cache_get_def split: if_splits option.splits prod.splits)























end
